theory Spec2Isabelle
  imports Complex_Main
begin

section \<open>Errors\<close>

text \<open>
  Go \<^verbatim>\<open>error\<close> values, as the packages \<^verbatim>\<open>pods\<close>, \<^verbatim>\<open>deployments\<close> and \<^verbatim>\<open>model\<close> produce
  and inspect them. \<open>Errorf\<close> is a \<^verbatim>\<open>fmt.Errorf\<close> error with its rendered message;
  \<open>ErrorfFormat\<close> is the error of \<^verbatim>\<open>fmt.Errorf(format)\<close>, called with a format string
  that is not a constant and with no operand: its message is what \<^verbatim>\<open>fmt\<close> renders from
  that format (the text itself when it holds no \<^verbatim>\<open>%\<close>), and the format is what is kept.
  \<open>APIError\<close> is an error answered by the cluster API client (with its message),
  \<open>ContextError\<close> the value of \<^verbatim>\<open>ctx.Err()\<close> of a finished context.
  \<open>ErrNotFound\<close> and \<open>ErrQuota\<close> are the two sentinel errors of package \<^verbatim>\<open>errors\<close> that
  the sources name.
\<close>

datatype ctx_err = Canceled | DeadlineExceeded

datatype error =
    ErrNotFound
  | ErrQuota
  | ContextError ctx_err
  | Errorf string
  | ErrorfFormat string
  | APIError string

text \<open>\<^verbatim>\<open>strings.Contains(s, substr)\<close>.\<close>

fun Contains :: "string \<Rightarrow> string \<Rightarrow> bool" where
  "Contains [] substr = (substr = [])"
| "Contains (c # s) substr = (take (length substr) (c # s) = substr \<or> Contains s substr)"

text \<open>
  Modelled from the spec: package \<^verbatim>\<open>errors\<close> (\<^verbatim>\<open>ErrNotFound\<close>, \<^verbatim>\<open>ErrQuota\<close>,
  \<^verbatim>\<open>IsNotFound\<close>) is not among the sources. The spec's taxonomy has NotFound for a named
  workload or pod that is absent, and quota exhaustion as a classified failure of its
  own. An API error counts as not-found by the test on its message that \<^verbatim>\<open>Restart\<close>
  and \<^verbatim>\<open>Destroy\<close> use.
\<close>

fun IsNotFound :: "error \<Rightarrow> bool" where
  "IsNotFound ErrNotFound = True"
| "IsNotFound (APIError msg) = Contains msg ''not found''"
| "IsNotFound _ = False"

text \<open>\<^verbatim>\<open>fmt.Sprintf("%d", i)\<close>: the decimal rendering of an integer.\<close>

definition digit :: "nat \<Rightarrow> char" where
  "digit n = ''0123456789'' ! n"

fun decimal :: "nat \<Rightarrow> string" where
  "decimal n = (if n < 10 then [digit n] else decimal (n div 10) @ [digit (n mod 10)])"

declare decimal.simps [simp del]

definition Sprintf_d :: "int \<Rightarrow> string" where
  "Sprintf_d i = (if i < 0 then CHR ''-'' # decimal (nat (- i)) else decimal (nat i))"


section \<open>Cluster objects\<close>

text \<open>
  The parts of the Kubernetes API types that the sources read or write. A Go map is a
  partial function; a nil map and an empty map are both \<open>Map.empty\<close> (the sources only
  look keys up in them and delete keys from them, which Go allows on a nil map). A
  pointer that may be nil is an \<open>option\<close>.
\<close>

record ObjectMeta =
  meta_Name :: string
  meta_Namespace :: string
  meta_ResourceVersion :: string
  meta_Labels :: "string \<rightharpoonup> string"
  meta_Annotations :: "string \<rightharpoonup> string"
  meta_DeletionTimestamp :: "nat option"

datatype PodPhase = PodPending | PodRunning | PodSucceeded | PodFailed | PodUnknown

datatype ConditionStatus = ConditionTrue | ConditionFalse | ConditionUnknown

datatype PodConditionType = PodScheduled | PodReady | PodInitialized | ContainersReady

record PodCondition =
  pc_Type :: PodConditionType
  pc_Status :: ConditionStatus

record ContainerStateWaiting =
  w_Reason :: string
  w_Message :: string

record ContainerStateTerminated =
  t_ExitCode :: int

record ContainerState =
  st_Waiting :: "ContainerStateWaiting option"
  st_Terminated :: "ContainerStateTerminated option"

record ContainerStatus =
  cs_Name :: string
  cs_State :: ContainerState

record PodStatus =
  ps_Phase :: PodPhase
  ps_Conditions :: "PodCondition list"
  ps_InitContainerStatuses :: "ContainerStatus list"

record Pod =
  pod_ObjectMeta :: ObjectMeta
  pod_Status :: PodStatus

datatype DeploymentConditionType =
  DeploymentAvailable | DeploymentProgressing | DeploymentReplicaFailure

record DeploymentCondition =
  dc_Type :: DeploymentConditionType
  dc_Status :: ConditionStatus
  dc_Reason :: string
  dc_Message :: string

record DeploymentStatus =
  ds_Conditions :: "DeploymentCondition list"

text \<open>
  The pod template's containers, volumes and the rest of its pod spec are carried along
  unread by the functions modelled here; they are the field \<open>tpl_Spec\<close> of a type that
  is left open.
\<close>

record 's PodTemplateSpec =
  tpl_ObjectMeta :: ObjectMeta
  tpl_Spec :: 's

record 's DeploymentSpec =
  spec_Replicas :: "int option"
  spec_Template :: "'s PodTemplateSpec"

record 's Deployment =
  d_ObjectMeta :: ObjectMeta
  d_Spec :: "'s DeploymentSpec"
  d_Status :: DeploymentStatus


section \<open>The cluster API client and the caller's context\<close>

text \<open>
  The client is an external collaborator: each call is answered by the cluster, and the
  answer may change from one observation to the next. The model takes the answers as
  given: every request carries the number of the observation round in which it is issued
  (the attempt of a polling loop), and the client's fields say what the cluster answers
  in that round. \<open>Inl msg\<close> is an error answer with its message.
\<close>

record 's client =
  PodsList :: "nat \<Rightarrow> string \<Rightarrow> string \<Rightarrow> string + Pod list"
  PodsDelete :: "nat \<Rightarrow> string \<Rightarrow> string \<Rightarrow> string option"
  DeploymentsGet :: "nat \<Rightarrow> string \<Rightarrow> string \<Rightarrow> string + 's Deployment"
  DeploymentsList :: "nat \<Rightarrow> string \<Rightarrow> string \<Rightarrow> string + 's Deployment list"
  DeploymentsUpdate :: "nat \<Rightarrow> 's Deployment \<Rightarrow> string option"

text \<open>The same cluster seen one observation round later.\<close>

definition later :: "'s client \<Rightarrow> 's client" where
  "later c = \<lparr> PodsList = (\<lambda>t. PodsList c (Suc t)),
               PodsDelete = (\<lambda>t. PodsDelete c (Suc t)),
               DeploymentsGet = (\<lambda>t. DeploymentsGet c (Suc t)),
               DeploymentsList = (\<lambda>t. DeploymentsList c (Suc t)),
               DeploymentsUpdate = (\<lambda>t. DeploymentsUpdate c (Suc t)) \<rparr>"

text \<open>
  A \<^verbatim>\<open>context.Context\<close>, as \<^verbatim>\<open>GetByLabel\<close> uses it: \<open>ctx_Done ctx t\<close> says that the
  \<^verbatim>\<open>select\<close> at the end of attempt \<open>t\<close> takes the branch \<^verbatim>\<open>case <-ctx.Done()\<close> (otherwise
  it takes the ticker's branch, which always becomes ready); \<open>ctx_Err\<close> is what
  \<^verbatim>\<open>ctx.Err()\<close> returns then.
\<close>

record Context =
  ctx_Done :: "nat \<Rightarrow> bool"
  ctx_Err :: ctx_err


section \<open>The manifest\<close>

text \<open>
  \<^verbatim>\<open>model.Dev\<close>. The manifest nodes live in a store and are passed by address, as the
  Go code passes \<^verbatim>\<open>*Dev\<close>: \<^verbatim>\<open>ToTranslationRule\<close> compares the two pointers it is given.
  \<^verbatim>\<open>Labels\<close> is kept as the list of its entries in the order in which Go happens to
  iterate over the map. The type \<open>'q\<close> is that of the quantities
  (\<^verbatim>\<open>resource.Quantity\<close>), which the code only carries along.
\<close>

type_synonym ref = nat

record Capabilities =
  cap_Add :: "string list"
  cap_Drop :: "string list"

record SecurityContext =
  sc_RunAsUser :: "int option"
  sc_RunAsGroup :: "int option"
  sc_FSGroup :: "int option"
  sc_Capabilities :: "Capabilities option"

record EnvVar =
  env_Name :: string
  env_Value :: string

record Forward =
  fw_Local :: int
  fw_Remote :: int

type_synonym 'q ResourceList = "string \<rightharpoonup> 'q"

record 'q ResourceRequirements =
  rr_Limits :: "'q ResourceList"
  rr_Requests :: "'q ResourceList"

record 'q Dev =
  dev_Name :: string
  dev_Labels :: "(string \<times> string) list"
  dev_Namespace :: string
  dev_Container :: string
  dev_Image :: string
  dev_ImagePullPolicy :: string
  dev_Environment :: "EnvVar list"
  dev_Command :: "string list"
  dev_WorkDir :: string
  dev_MountPath :: string
  dev_SubPath :: string
  dev_Volumes :: "string list"
  dev_SecurityContext :: "SecurityContext option"
  dev_Forward :: "Forward list"
  dev_Resources :: "'q ResourceRequirements"
  dev_DevPath :: string
  dev_DevDir :: string
  dev_Services :: "ref list"

text \<open>\<^verbatim>\<open>LabelsSelector\<close>: the labels as a selector, \<^verbatim>\<open>k1=v1, k2=v2\<close>.\<close>

fun LabelsSelector_loop :: "(string \<times> string) list \<Rightarrow> string \<Rightarrow> string" where
  "LabelsSelector_loop [] labels = labels"
| "LabelsSelector_loop ((k, v) # rest) labels =
     LabelsSelector_loop rest
       (if labels = '''' then k @ ''='' @ v else labels @ '', '' @ k @ ''='' @ v)"

definition LabelsSelector :: "'q Dev \<Rightarrow> string" where
  "LabelsSelector dev = LabelsSelector_loop (dev_Labels dev) ''''"


section \<open>Package deployments: Get\<close>

text \<open>\<^verbatim>\<open>Get\<close>, called in the observation round \<open>now\<close>.\<close>

definition Get :: "'q Dev \<Rightarrow> string \<Rightarrow> 's client \<Rightarrow> nat \<Rightarrow> error + 's Deployment" where
  "Get dev namespace c now =
     (if namespace = '''' then Inl (Errorf ''empty namespace'')
      else if length (dev_Labels dev) = 0 then
        (case DeploymentsGet c now namespace (dev_Name dev) of
           Inl msg \<Rightarrow> Inl (APIError msg)
         | Inr d \<Rightarrow> Inr d)
      else
        (case DeploymentsList c now namespace (LabelsSelector dev) of
           Inl msg \<Rightarrow> Inl (APIError msg)
         | Inr items \<Rightarrow>
             if length items = 0 then Inl ErrNotFound
             else if length items > 1 then
               Inl (Errorf (''Found '' @ [CHR 0x27] @ Sprintf_d (int (length items)) @ [CHR 0x27]
                            @ '' deployments instead of 1''))
             else Inr (hd items)))"


section \<open>Package pods\<close>

definition OktetoInteractiveDevLabel :: string where
  "OktetoInteractiveDevLabel = ''interactive.dev.okteto.com''"

definition OktetoDetachedDevLabel :: string where
  "OktetoDetachedDevLabel = ''detached.dev.okteto.com''"

definition maxRetries :: nat where
  "maxRetries = 600"

definition failedCreateReason :: string where
  "failedCreateReason = ''FailedCreate''"

definition OktetoInitContainer :: string where
  "OktetoInitContainer = ''okteto-init''"

subsection \<open>isDeploymentFailed\<close>

fun quotaCondition :: "DeploymentCondition list \<Rightarrow> error option" where
  "quotaCondition [] = None"
| "quotaCondition (c # cs) =
     (if dc_Type c = DeploymentReplicaFailure \<and> dc_Reason c = failedCreateReason
         \<and> dc_Status c = ConditionTrue \<and> Contains (dc_Message c) ''exceeded quota''
      then Some ErrQuota
      else quotaCondition cs)"

definition isDeploymentFailed :: "'q Dev \<Rightarrow> 's client \<Rightarrow> nat \<Rightarrow> error option" where
  "isDeploymentFailed dev c now =
     (case Get dev (dev_Namespace dev) c now of
        Inl err \<Rightarrow> (if IsNotFound err then Some err else None)
      | Inr d \<Rightarrow> quotaCondition (ds_Conditions (d_Status d)))"

subsection \<open>GetByLabel\<close>

definition initError :: error where
  "initError = Errorf (''Error initializing okteto volume. This is probably because your ''
     @ ''development image is not root. Please, add securityContext.runAsUser and ''
     @ ''securityContext.fsGroup to your deployment manifest'')"

definition retrieveError :: error where
  "retrieveError = Errorf ''failed to retrieve dev environment information''"

definition timeoutError :: error where
  "timeoutError = Errorf (''kubernetes is taking too long to create the cloud native ''
     @ ''environment. Please check for errors and try again'')"

text \<open>
  The loop over \<^verbatim>\<open>pod.Status.InitContainerStatuses\<close> of a pod that is not running:
  \<open>Some err\<close> when it returns from \<^verbatim>\<open>GetByLabel\<close> with \<open>err\<close>.
\<close>

fun initContainerFailure :: "ContainerStatus list \<Rightarrow> error option" where
  "initContainerFailure [] = None"
| "initContainerFailure (status # rest) =
     (if cs_Name status = OktetoInitContainer then
        (if (case st_Terminated (cs_State status) of
               None \<Rightarrow> False | Some t \<Rightarrow> t_ExitCode t \<noteq> 0)
         then Some initError
         else
           (case st_Waiting (cs_State status) of
              None \<Rightarrow> initContainerFailure rest
            | Some w \<Rightarrow>
                if w_Reason w = ''ErrImagePull'' \<or> w_Reason w = ''ImagePullBackOff''
                then Some (ErrorfFormat (w_Message w))
                else initContainerFailure rest))
      else initContainerFailure rest)"

text \<open>
  The loop over \<^verbatim>\<open>pods.Items\<close>, with \<^verbatim>\<open>runningPods\<close> as accumulator: \<open>Inl err\<close> when
  the loop returns from \<^verbatim>\<open>GetByLabel\<close> with \<open>err\<close>, \<open>Inr runningPods\<close> when it ends.
\<close>

fun collectRunningPods :: "Pod list \<Rightarrow> Pod list \<Rightarrow> error + Pod list" where
  "collectRunningPods [] runningPods = Inr runningPods"
| "collectRunningPods (pod # pods) runningPods =
     (if ps_Phase (pod_Status pod) = PodRunning then
        (if meta_DeletionTimestamp (pod_ObjectMeta pod) = None
         then collectRunningPods pods (runningPods @ [pod])
         else collectRunningPods pods runningPods)
      else
        (case initContainerFailure (ps_InitContainerStatuses (pod_Status pod)) of
           Some err \<Rightarrow> Inl err
         | None \<Rightarrow> collectRunningPods pods runningPods))"

text \<open>
  One pass through the body of the \<^verbatim>\<open>for\<close> loop, at \<^verbatim>\<open>tries\<close>: \<open>Some r\<close> when the body
  returns \<open>r\<close> from \<^verbatim>\<open>GetByLabel\<close>, \<open>None\<close> when the ticker fires and the loop goes on
  with \<^verbatim>\<open>tries + 1\<close>.
\<close>

definition GetByLabel_attempt ::
  "Context \<Rightarrow> 'q Dev \<Rightarrow> string \<Rightarrow> 's client \<Rightarrow> bool \<Rightarrow> nat \<Rightarrow> (error + Pod) option" where
  "GetByLabel_attempt ctx dev selector c waitUntilDeployed tries =
     (case PodsList c tries (dev_Namespace dev) selector of
        Inl msg \<Rightarrow> Some (Inl retrieveError)
      | Inr pods \<Rightarrow>
          (case (if tries mod 10 = 0 \<and> length pods = 0 then
                   (case isDeploymentFailed dev c tries of
                      None \<Rightarrow> None
                    | Some err \<Rightarrow>
                        if \<not> IsNotFound err then Some err
                        else if \<not> waitUntilDeployed then Some err
                        else None)
                 else None) of
             Some err \<Rightarrow> Some (Inl err)
           | None \<Rightarrow>
               (case collectRunningPods pods [] of
                  Inl err \<Rightarrow> Some (Inl err)
                | Inr runningPods \<Rightarrow>
                    if length runningPods = 1 then Some (Inr (hd runningPods))
                    else if ctx_Done ctx tries then Some (Inl (ContextError (ctx_Err ctx)))
                    else None)))"

function GetByLabel_loop ::
  "Context \<Rightarrow> 'q Dev \<Rightarrow> string \<Rightarrow> 's client \<Rightarrow> bool \<Rightarrow> nat \<Rightarrow> error + Pod" where
  "GetByLabel_loop ctx dev selector c waitUntilDeployed tries =
     (if tries < maxRetries then
        (case GetByLabel_attempt ctx dev selector c waitUntilDeployed tries of
           Some r \<Rightarrow> r
         | None \<Rightarrow> GetByLabel_loop ctx dev selector c waitUntilDeployed (tries + 1))
      else Inl timeoutError)"
  by pat_completeness auto
termination
  by (relation "measure (\<lambda>(ctx, dev, selector, c, w, tries). maxRetries - tries)") auto

declare GetByLabel_loop.simps [simp del]

definition GetByLabel ::
  "Context \<Rightarrow> 'q Dev \<Rightarrow> string \<Rightarrow> 's client \<Rightarrow> bool \<Rightarrow> error + Pod" where
  "GetByLabel ctx dev label c waitUntilDeployed =
     GetByLabel_loop ctx dev (label @ ''='' @ dev_Name dev) c waitUntilDeployed 0"

subsection \<open>Restart and waitUntilRunning\<close>

definition isRunning :: "Pod \<Rightarrow> bool" where
  "isRunning p =
     (if ps_Phase (pod_Status p) \<noteq> PodRunning then False
      else if meta_DeletionTimestamp (pod_ObjectMeta p) \<noteq> None then False
      else list_ex (\<lambda>c. pc_Type c = PodReady \<and> pc_Status c = ConditionTrue)
             (ps_Conditions (pod_Status p)))"

text \<open>
  The map \<^verbatim>\<open>notready\<close> of \<^verbatim>\<open>waitUntilRunning\<close> only ever holds \<^verbatim>\<open>true\<close>; it is kept as
  the list of its keys, without repetition, in the order in which they were first stored.
  (Go ranges over the map in an unspecified order when it renders the final message.)
\<close>

definition notready_store :: "string \<Rightarrow> string list \<Rightarrow> string list" where
  "notready_store name notready = (if name \<in> set notready then notready else notready @ [name])"

definition notready_delete :: "string \<Rightarrow> string list \<Rightarrow> string list" where
  "notready_delete name notready = filter (\<lambda>k. k \<noteq> name) notready"

text \<open>\<^verbatim>\<open>strings.Join(elems, sep)\<close>.\<close>

fun strings_Join :: "string list \<Rightarrow> string \<Rightarrow> string" where
  "strings_Join [] sep = []"
| "strings_Join [e] sep = e"
| "strings_Join (e # es) sep = e @ sep @ strings_Join es sep"

text \<open>
  The loop over \<^verbatim>\<open>pods.Items\<close> in one iteration of \<^verbatim>\<open>waitUntilRunning\<close>: \<open>Inl err\<close>
  when it returns \<open>err\<close> from the function, else the values of \<^verbatim>\<open>allRunning\<close> and
  \<^verbatim>\<open>notready\<close> at its end.
\<close>

fun classifyPods :: "Pod list \<Rightarrow> bool \<Rightarrow> string list \<Rightarrow> error + (bool \<times> string list)" where
  "classifyPods [] allRunning notready = Inr (allRunning, notready)"
| "classifyPods (pod # pods) allRunning notready =
     (case ps_Phase (pod_Status pod) of
        PodPending \<Rightarrow>
          classifyPods pods False (notready_store (meta_Name (pod_ObjectMeta pod)) notready)
      | PodFailed \<Rightarrow>
          Inl (Errorf (''Pod '' @ meta_Name (pod_ObjectMeta pod) @ '' failed to start''))
      | PodRunning \<Rightarrow>
          if isRunning pod
          then classifyPods pods allRunning
                 (notready_delete (meta_Name (pod_ObjectMeta pod)) notready)
          else classifyPods pods False
                 (notready_store (meta_Name (pod_ObjectMeta pod)) notready)
      | _ \<Rightarrow> classifyPods pods allRunning notready)"

function waitUntilRunning_loop ::
  "string \<Rightarrow> string \<Rightarrow> 's client \<Rightarrow> nat \<Rightarrow> string list \<Rightarrow> error option" where
  "waitUntilRunning_loop namespace selector c i notready =
     (if i < 60 then
        (case PodsList c i namespace selector of
           Inl msg \<Rightarrow> Some retrieveError
         | Inr pods \<Rightarrow>
             (case classifyPods pods True notready of
                Inl err \<Rightarrow> Some err
              | Inr (allRunning, notready') \<Rightarrow>
                  if allRunning then None
                  else waitUntilRunning_loop namespace selector c (i + 1) notready'))
      else Some (Errorf (''Pod(s) '' @ strings_Join notready '','' @
                         '' didn't restart after 60 seconds'')))"
  by pat_completeness auto
termination
  by (relation "measure (\<lambda>(namespace, selector, c, i, notready). 60 - i)") auto

declare waitUntilRunning_loop.simps [simp del]

text \<open>\<open>None\<close> is Go's \<^verbatim>\<open>nil\<close> error: the pods are ready.\<close>

definition waitUntilRunning :: "string \<Rightarrow> string \<Rightarrow> 's client \<Rightarrow> error option" where
  "waitUntilRunning namespace selector c = waitUntilRunning_loop namespace selector c 0 []"

text \<open>
  The deleting loop of \<^verbatim>\<open>Restart\<close>. The first component lists the pods for which a
  delete request was sent, in order; the second is \<open>Some r\<close> when the loop returns \<open>r\<close>
  from \<^verbatim>\<open>Restart\<close> and \<open>None\<close> when the loop ends.
\<close>

fun deletePods ::
  "'s client \<Rightarrow> string \<Rightarrow> Pod list \<Rightarrow> string list \<times> error option option" where
  "deletePods c namespace [] = ([], None)"
| "deletePods c namespace (pod # pods) =
     (case PodsDelete c 0 namespace (meta_Name (pod_ObjectMeta pod)) of
        Some msg \<Rightarrow>
          if Contains msg ''not found''
          then ([meta_Name (pod_ObjectMeta pod)], Some None)
          else ([meta_Name (pod_ObjectMeta pod)],
                Some (Some (Errorf (''error deleting kubernetes service: '' @ msg))))
      | None \<Rightarrow>
          (case deletePods c namespace pods of
             (deleted, r) \<Rightarrow> (meta_Name (pod_ObjectMeta pod) # deleted, r)))"

text \<open>
  \<^verbatim>\<open>Restart\<close> lists and deletes in observation round 0; the wait that follows sees the
  cluster from the next round on.
\<close>

definition Restart :: "'q Dev \<Rightarrow> 's client \<Rightarrow> error option" where
  "Restart dev c =
     (case PodsList c 0 (dev_Namespace dev) (OktetoDetachedDevLabel @ ''='' @ dev_Name dev) of
        Inl msg \<Rightarrow> Some retrieveError
      | Inr pods \<Rightarrow>
          (case snd (deletePods c (dev_Namespace dev) pods) of
             Some r \<Rightarrow> r
           | None \<Rightarrow>
               waitUntilRunning (dev_Namespace dev)
                 (OktetoDetachedDevLabel @ ''='' @ dev_Name dev) (later c)))"


section \<open>Package deployments: DevModeOff\<close>

text \<open>
  The names of the annotations and of the label are constants of package
  \<^verbatim>\<open>deployments\<close> that are declared outside the sources at hand; they are parameters.
\<close>

record names =
  OktetoTranslationAnnotation :: string
  oktetoDeploymentAnnotation :: string
  oktetoDeveloperAnnotation :: string
  oktetoVersionAnnotation :: string
  OktetoDevLabel :: string

text \<open>
  \<^verbatim>\<open>model.Translation\<close>, with the fields that \<^verbatim>\<open>GetTranslations\<close> sets, but for the
  pointer to the deployment and the rules, which \<^verbatim>\<open>DevModeOff\<close> does not read.
\<close>

record Translation =
  tr_Interactive :: bool
  tr_Name :: string
  tr_Marker :: string
  tr_Version :: string
  tr_Replicas :: int

text \<open>
  \<^verbatim>\<open>json.Unmarshal\<close> into a \<^verbatim>\<open>model.Translation\<close> and into an \<^verbatim>\<open>appsv1.Deployment\<close>:
  the standard library's decoder is a parameter; \<open>Inl msg\<close> is its error.
\<close>

record 's json =
  Unmarshal_Translation :: "string \<Rightarrow> string + Translation"
  Unmarshal_Deployment :: "string \<Rightarrow> string + 's Deployment"

text \<open>
  Modelled from the spec: the helper \<^verbatim>\<open>getAnnotation\<close> of package \<^verbatim>\<open>deployments\<close> is not
  among the sources. It reads one annotation of an object's metadata; an annotation
  that is not present reads as the empty string, which is what \<^verbatim>\<open>DevModeOff\<close> tests.
\<close>

definition getAnnotation :: "ObjectMeta \<Rightarrow> string \<Rightarrow> string" where
  "getAnnotation obj key = (case meta_Annotations obj key of None \<Rightarrow> [] | Some v \<Rightarrow> v)"

text \<open>
  \<^verbatim>\<open>update\<close>: returns the error and the objects written to the cluster (here the one
  object handed to the client's \<^verbatim>\<open>Update\<close>).
\<close>

definition update :: "'s Deployment \<Rightarrow> 's client \<Rightarrow> error option \<times> 's Deployment list" where
  "update d c =
     (let d' = d\<lparr> d_ObjectMeta := (d_ObjectMeta d)\<lparr> meta_ResourceVersion := [] \<rparr>,
                  d_Status := \<lparr> ds_Conditions = [] \<rparr> \<rparr>
      in (case DeploymentsUpdate c 0 d' of
            Some msg \<Rightarrow> (Some (APIError msg), [d'])
          | None \<Rightarrow> (None, [d'])))"

text \<open>The \<^verbatim>\<open>else\<close> branch of \<^verbatim>\<open>DevModeOff\<close>: what it makes of \<^verbatim>\<open>d\<close> before the update.\<close>

definition restoreFromTranslation :: "names \<Rightarrow> Translation \<Rightarrow> 's Deployment \<Rightarrow> 's Deployment" where
  "restoreFromTranslation K trRules d =
     (let d1 = d\<lparr> d_Spec := (d_Spec d)\<lparr> spec_Replicas := Some (tr_Replicas trRules) \<rparr> \<rparr>;
          annotations = (meta_Annotations (d_ObjectMeta d1))
                          (oktetoDeveloperAnnotation K := None, oktetoVersionAnnotation K := None);
          d2 = d1\<lparr> d_ObjectMeta := (d_ObjectMeta d1)\<lparr> meta_Annotations := annotations \<rparr> \<rparr>;
          annotations' = (meta_Annotations (tpl_ObjectMeta (spec_Template (d_Spec d2))))
                          (OktetoTranslationAnnotation K := None);
          d3 = d2\<lparr> d_Spec := (d_Spec d2)\<lparr> spec_Template := (spec_Template (d_Spec d2))
                  \<lparr> tpl_ObjectMeta := (tpl_ObjectMeta (spec_Template (d_Spec d2)))
                      \<lparr> meta_Annotations := annotations' \<rparr> \<rparr> \<rparr> \<rparr>;
          labels = (meta_Labels (d_ObjectMeta d3)) (OktetoDevLabel K := None)
      in d3\<lparr> d_ObjectMeta := (d_ObjectMeta d3)\<lparr> meta_Labels := labels \<rparr> \<rparr>)"

definition DevModeOff ::
  "names \<Rightarrow> 's json \<Rightarrow> 's Deployment \<Rightarrow> 's client \<Rightarrow> error option \<times> 's Deployment list" where
  "DevModeOff K J d c =
     (let trRulesJSON = getAnnotation (tpl_ObjectMeta (spec_Template (d_Spec d)))
                          (OktetoTranslationAnnotation K)
      in if length trRulesJSON = 0 then
           (let dManifest = getAnnotation (d_ObjectMeta d) (oktetoDeploymentAnnotation K)
            in if length dManifest = 0 then (None, [])
               else (case Unmarshal_Deployment J dManifest of
                       Inl msg \<Rightarrow> (Some (Errorf (''malformed manifest: '' @ msg)), [])
                     | Inr dOrig \<Rightarrow> update dOrig c))
         else (case Unmarshal_Translation J trRulesJSON of
                 Inl msg \<Rightarrow> (Some (Errorf (''malformed tr rules: '' @ msg)), [])
               | Inr trRules \<Rightarrow> update (restoreFromTranslation K trRules d) c))"


section \<open>Package model: translation rules\<close>

subsection \<open>path/filepath\<close>

text \<open>
  \<^verbatim>\<open>filepath.Join\<close> and \<^verbatim>\<open>filepath.Clean\<close> of Go's standard library, for a slash-separated
  path: \<^verbatim>\<open>Clean\<close> drops empty and \<^verbatim>\<open>.\<close> elements, lets \<^verbatim>\<open>..\<close> remove the element
  before it (keeping a leading run of \<^verbatim>\<open>..\<close> in a relative path and dropping \<^verbatim>\<open>..\<close>
  at the root), and writes the empty result as \<^verbatim>\<open>.\<close>; \<^verbatim>\<open>Join\<close> skips leading empty
  elements, joins the rest with slashes and cleans the result.
\<close>

fun split_slash :: "string \<Rightarrow> string list" where
  "split_slash [] = [[]]"
| "split_slash (c # s) =
     (if c = CHR ''/'' then [] # split_slash s
      else (case split_slash s of
              [] \<Rightarrow> [[c]]
            | e # es \<Rightarrow> (c # e) # es))"

fun clean_elems :: "bool \<Rightarrow> string list \<Rightarrow> string list \<Rightarrow> string list" where
  "clean_elems rooted [] out = out"
| "clean_elems rooted (e # es) out =
     (if e = [] \<or> e = ''.'' then clean_elems rooted es out
      else if e = ''..'' then
        (if out \<noteq> [] \<and> last out \<noteq> ''..'' then clean_elems rooted es (butlast out)
         else if \<not> rooted then clean_elems rooted es (out @ [''..''])
         else clean_elems rooted es out)
      else clean_elems rooted es (out @ [e]))"

definition Clean :: "string \<Rightarrow> string" where
  "Clean path =
     (if path = [] then ''.''
      else
        (let rooted = (hd path = CHR ''/'');
             out = clean_elems rooted (split_slash path) []
         in if rooted then CHR ''/'' # strings_Join out ''/''
            else if out = [] then ''.''
            else strings_Join out ''/''))"

definition filepath_Join :: "string list \<Rightarrow> string" where
  "filepath_Join elem =
     (case dropWhile (\<lambda>e. e = []) elem of
        [] \<Rightarrow> []
      | e # es \<Rightarrow> Clean (strings_Join (e # es) ''/''))"

text \<open>
  A path element that \<^verbatim>\<open>Clean\<close> leaves as it is: not empty, without a slash, and
  neither \<^verbatim>\<open>.\<close> nor \<^verbatim>\<open>..\<close>. A name that passes \<^verbatim>\<open>validate\<close> is one.
\<close>

definition plainElement :: "string \<Rightarrow> bool" where
  "plainElement e \<longleftrightarrow> e \<noteq> [] \<and> CHR ''/'' \<notin> set e \<and> e \<noteq> ''.'' \<and> e \<noteq> ''..''"

subsection \<open>FullSubPath and ToTranslationRule\<close>

definition oktetoVolumeName :: string where
  "oktetoVolumeName = ''okteto''"

text \<open>
  \<^verbatim>\<open>model.VolumeMount\<close> and \<^verbatim>\<open>model.TranslationRule\<close>, with the fields that
  \<^verbatim>\<open>ToTranslationRule\<close> sets. \<^verbatim>\<open>Command\<close> and \<^verbatim>\<open>Args\<close> are \<open>None\<close> while they are Go's
  nil slice, which is how the rule leaves them when it does not set them.
\<close>

record VolumeMount =
  vm_Name :: string
  vm_MountPath :: string
  vm_SubPath :: string

record 'q TranslationRule =
  rule_Container :: string
  rule_Image :: string
  rule_ImagePullPolicy :: string
  rule_Environment :: "EnvVar list"
  rule_Command :: "string list option"
  rule_Args :: "string list option"
  rule_WorkDir :: string
  rule_Healthchecks :: bool
  rule_Volumes :: "VolumeMount list"
  rule_SecurityContext :: "SecurityContext option"
  rule_Resources :: "'q ResourceRequirements"

definition FullSubPath :: "'q Dev \<Rightarrow> int \<Rightarrow> string \<Rightarrow> string" where
  "FullSubPath dev i subPath =
     (if dev_SubPath dev = [] then filepath_Join [dev_Name dev, ''data-'' @ Sprintf_d i]
      else filepath_Join [dev_Name dev, ''data-'' @ Sprintf_d i, dev_SubPath dev])"

text \<open>
  The loop \<^verbatim>\<open>for i, v := range dev.Volumes\<close>, from index \<open>i\<close> on, appending to
  \<^verbatim>\<open>rule.Volumes\<close>.
\<close>

fun appendVolumes :: "'q Dev \<Rightarrow> string list \<Rightarrow> nat \<Rightarrow> VolumeMount list \<Rightarrow> VolumeMount list" where
  "appendVolumes main [] i volumes = volumes"
| "appendVolumes main (v # vs) i volumes =
     appendVolumes main vs (i + 1)
       (volumes @ [\<lparr> vm_Name = oktetoVolumeName, vm_MountPath = v,
                     vm_SubPath = FullSubPath main (int i + 1) (dev_SubPath main) \<rparr>])"

text \<open>
  \<^verbatim>\<open>dev.ToTranslationRule(main, d)\<close>. The receiver and \<^verbatim>\<open>main\<close> are addresses in the
  store \<open>h\<close> of manifest nodes, and \<^verbatim>\<open>main == dev\<close> compares the addresses. The
  deployment \<^verbatim>\<open>d\<close> is not used by the function and is left out.
\<close>

definition ToTranslationRule :: "(ref \<Rightarrow> 'q Dev) \<Rightarrow> ref \<Rightarrow> ref \<Rightarrow> 'q TranslationRule" where
  "ToTranslationRule h dev main =
     (let rule = \<lparr> rule_Container = dev_Container (h dev),
                   rule_Image = dev_Image (h dev),
                   rule_ImagePullPolicy = dev_ImagePullPolicy (h dev),
                   rule_Environment = dev_Environment (h dev),
                   rule_Command = None,
                   rule_Args = None,
                   rule_WorkDir = dev_WorkDir (h dev),
                   rule_Healthchecks = False,
                   rule_Volumes =
                     [\<lparr> vm_Name = oktetoVolumeName, vm_MountPath = dev_MountPath (h dev),
                        vm_SubPath = FullSubPath (h main) 0 (dev_SubPath (h dev)) \<rparr>],
                   rule_SecurityContext = dev_SecurityContext (h dev),
                   rule_Resources = dev_Resources (h dev) \<rparr>;
          rule' =
            (if main = dev then
               rule\<lparr> rule_Healthchecks := False,
                     rule_Command := Some [''tail''],
                     rule_Args := Some [''-f'', ''/dev/null''] \<rparr>
             else if length (dev_Command (h dev)) > 0 then
               rule\<lparr> rule_Healthchecks := True,
                     rule_Command := Some (dev_Command (h dev)),
                     rule_Args := Some [] \<rparr>
             else rule\<lparr> rule_Healthchecks := True \<rparr>)
      in rule'\<lparr> rule_Volumes := appendVolumes (h main) (dev_Volumes (h dev)) 0 (rule_Volumes rule') \<rparr>)"


section \<open>Package deployments: merging a rule into a container\<close>

text \<open>
  The part of \<^verbatim>\<open>apiv1.Container\<close> that the two merges work on. The container's security
  context is taken with the fields the spec names (user id, group id, filesystem
  group, capabilities).
\<close>

record 'q Container =
  c_Resources :: "'q ResourceRequirements"
  c_SecurityContext :: "SecurityContext option"

definition ResourceMemory :: string where
  "ResourceMemory = ''memory''"

definition ResourceCPU :: string where
  "ResourceCPU = ''cpu''"

text \<open>
  Modelled from the spec: the merge of one quantity, the step that \<^verbatim>\<open>TranslateResources\<close>
  (not among the sources) repeats. A quantity that the rule specifies overwrites the
  container's value; where the rule specifies nothing, the container's value, if any,
  stays. (The spec says "a non-zero quantity"; a quantity written as zero is taken as
  specified.)
\<close>

definition overwriteQuantity :: "'q ResourceList \<Rightarrow> 'q ResourceList \<Rightarrow> string \<Rightarrow> 'q ResourceList" where
  "overwriteQuantity existing rule name =
     (case rule name of None \<Rightarrow> existing | Some v \<Rightarrow> existing(name \<mapsto> v))"

text \<open>
  Modelled from the spec: \<^verbatim>\<open>TranslateResources\<close> is not among the sources (its test is).
  It merges the resource requirements of a rule into a container: for each of CPU and
  memory, independently for limits and for requests, by the step above. Quantities are
  never added up.
\<close>

definition TranslateResources :: "'q Container \<Rightarrow> 'q ResourceRequirements \<Rightarrow> 'q Container" where
  "TranslateResources c r =
     c\<lparr> c_Resources :=
         \<lparr> rr_Limits =
             overwriteQuantity
               (overwriteQuantity (rr_Limits (c_Resources c)) (rr_Limits r) ResourceMemory)
               (rr_Limits r) ResourceCPU,
           rr_Requests =
             overwriteQuantity
               (overwriteQuantity (rr_Requests (c_Resources c)) (rr_Requests r) ResourceMemory)
               (rr_Requests r) ResourceCPU \<rparr> \<rparr>"








section \<open>Example clusters and manifests\<close>

text \<open>Concrete inputs, on which the theorems below are exercised.\<close>

definition dev0 :: "rat Dev" where
  "dev0 = \<lparr> dev_Name = ''web'', dev_Labels = [], dev_Namespace = ''staging'',
            dev_Container = ''dev'', dev_Image = ''web:latest'',
            dev_ImagePullPolicy = ''Always'', dev_Environment = [],
            dev_Command = [''./run_web.sh''], dev_WorkDir = ''/app'',
            dev_MountPath = ''/app'', dev_SubPath = [], dev_Volumes = [],
            dev_SecurityContext = None, dev_Forward = [],
            dev_Resources = \<lparr> rr_Limits = Map.empty, rr_Requests = Map.empty \<rparr>,
            dev_DevPath = ''okteto.yml'', dev_DevDir = ''/home/dev/web'',
            dev_Services = [1] \<rparr>"

definition meta0 :: "string \<Rightarrow> ObjectMeta" where
  "meta0 name = \<lparr> meta_Name = name, meta_Namespace = ''staging'',
                  meta_ResourceVersion = ''7'', meta_Labels = Map.empty,
                  meta_Annotations = Map.empty, meta_DeletionTimestamp = None \<rparr>"

definition readyPod :: "string \<Rightarrow> Pod" where
  "readyPod name =
     \<lparr> pod_ObjectMeta = meta0 name,
       pod_Status = \<lparr> ps_Phase = PodRunning,
                      ps_Conditions = [\<lparr> pc_Type = PodReady, pc_Status = ConditionTrue \<rparr>],
                      ps_InitContainerStatuses = [] \<rparr> \<rparr>"

definition pendingPod :: "string \<Rightarrow> Pod" where
  "pendingPod name =
     \<lparr> pod_ObjectMeta = meta0 name,
       pod_Status = \<lparr> ps_Phase = PodPending, ps_Conditions = [],
                      ps_InitContainerStatuses = [] \<rparr> \<rparr>"

definition failedPod :: "string \<Rightarrow> Pod" where
  "failedPod name =
     \<lparr> pod_ObjectMeta = meta0 name,
       pod_Status = \<lparr> ps_Phase = PodFailed, ps_Conditions = [],
                      ps_InitContainerStatuses = [] \<rparr> \<rparr>"

definition crashedInitPod :: "string \<Rightarrow> Pod" where
  "crashedInitPod name =
     \<lparr> pod_ObjectMeta = meta0 name,
       pod_Status =
         \<lparr> ps_Phase = PodPending, ps_Conditions = [],
           ps_InitContainerStatuses =
             [\<lparr> cs_Name = ''okteto-init'',
                cs_State = \<lparr> st_Waiting = None,
                             st_Terminated = Some \<lparr> t_ExitCode = 1 \<rparr> \<rparr> \<rparr>] \<rparr> \<rparr>"

definition deployment0 :: "DeploymentCondition list \<Rightarrow> unit Deployment" where
  "deployment0 conds =
     \<lparr> d_ObjectMeta = meta0 ''web'',
       d_Spec = \<lparr> spec_Replicas = Some 1,
                  spec_Template = \<lparr> tpl_ObjectMeta = meta0 [], tpl_Spec = () \<rparr> \<rparr>,
       d_Status = \<lparr> ds_Conditions = conds \<rparr> \<rparr>"

definition quotaCond :: DeploymentCondition where
  "quotaCond = \<lparr> dc_Type = DeploymentReplicaFailure, dc_Status = ConditionTrue,
                 dc_Reason = ''FailedCreate'',
                 dc_Message = ''pods web-5c4 is forbidden: exceeded quota: compute'' \<rparr>"

text \<open>
  A cluster that always lists the given pods and always answers a request for the
  deployment in the given way; deletes and updates succeed.
\<close>

definition cluster :: "Pod list \<Rightarrow> string + unit Deployment \<Rightarrow> unit client" where
  "cluster pods dep =
     \<lparr> PodsList = (\<lambda>t namespace selector. Inr pods),
       PodsDelete = (\<lambda>t namespace name. None),
       DeploymentsGet = (\<lambda>t namespace name. dep),
       DeploymentsList = (\<lambda>t namespace selector. Inr []),
       DeploymentsUpdate = (\<lambda>t d. None) \<rparr>"

definition background :: Context where
  "background = \<lparr> ctx_Done = (\<lambda>t. False), ctx_Err = Canceled \<rparr>"

definition cancelled :: Context where
  "cancelled = \<lparr> ctx_Done = (\<lambda>t. True), ctx_Err = Canceled \<rparr>"

text \<open>A context that is cancelled while the wait is at attempt \<open>n\<close>.\<close>

definition cancelledFrom :: "nat \<Rightarrow> Context" where
  "cancelledFrom n = \<lparr> ctx_Done = (\<lambda>t. n \<le> t), ctx_Err = Canceled \<rparr>"

text \<open>
  A cluster for \<^verbatim>\<open>Restart\<close>: it lists \<open>before\<close> in round 0 and \<open>after\<close> in every later
  round, and answers the request to delete the pod \<open>name\<close> with \<open>answer name\<close>.
\<close>

definition restartCluster ::
  "Pod list \<Rightarrow> (string \<Rightarrow> string option) \<Rightarrow> Pod list \<Rightarrow> unit client" where
  "restartCluster before answer after =
     \<lparr> PodsList = (\<lambda>t namespace selector. Inr (if t = 0 then before else after)),
       PodsDelete = (\<lambda>t namespace name. answer name),
       DeploymentsGet = (\<lambda>t namespace name. Inl ''unavailable''),
       DeploymentsList = (\<lambda>t namespace selector. Inr []),
       DeploymentsUpdate = (\<lambda>t d. None) \<rparr>"

definition deleted :: "string \<Rightarrow> string option" where
  "deleted name = None"

definition alreadyGone :: "string \<Rightarrow> string \<Rightarrow> string option" where
  "alreadyGone gone name = (if name = gone then Some (''pods '' @ gone @ '' not found'') else None)"

text \<open>
  Inputs for \<^verbatim>\<open>DevModeOff\<close>: the names that the annotations and the label carry, a decoder
  that knows one serialized translation and one serialized deployment, and a deployment
  with the given annotations, pod template annotations and labels.
\<close>

definition names0 :: names where
  "names0 = \<lparr> OktetoTranslationAnnotation = ''dev.okteto.com/translation'',
              oktetoDeploymentAnnotation = ''dev.okteto.com/deployment'',
              oktetoDeveloperAnnotation = ''dev.okteto.com/developer'',
              oktetoVersionAnnotation = ''dev.okteto.com/version'',
              OktetoDevLabel = ''dev.okteto.com'' \<rparr>"

definition translation0 :: Translation where
  "translation0 = \<lparr> tr_Interactive = True, tr_Name = ''web'', tr_Marker = ''okteto.yml'',
                    tr_Version = ''1.0'', tr_Replicas = 3 \<rparr>"

definition json0 :: "unit json" where
  "json0 =
     \<lparr> Unmarshal_Translation =
         (\<lambda>s. if s = ''{name:web,replicas:3}'' then Inr translation0
               else Inl ''invalid character''),
       Unmarshal_Deployment =
         (\<lambda>s. if s = ''{metadata:{name:web}}'' then Inr (deployment0 [])
               else Inl ''invalid character'') \<rparr>"

definition annotated ::
  "(string \<rightharpoonup> string) \<Rightarrow> (string \<rightharpoonup> string) \<Rightarrow> (string \<rightharpoonup> string) \<Rightarrow> unit Deployment" where
  "annotated annotations templateAnnotations labels =
     \<lparr> d_ObjectMeta = (meta0 ''web'')\<lparr> meta_Annotations := annotations, meta_Labels := labels \<rparr>,
       d_Spec = \<lparr> spec_Replicas = Some 1,
                  spec_Template = \<lparr> tpl_ObjectMeta = (meta0 [])\<lparr> meta_Annotations := templateAnnotations \<rparr>,
                                    tpl_Spec = () \<rparr> \<rparr>,
       d_Status = \<lparr> ds_Conditions = [quotaCond] \<rparr> \<rparr>"

text \<open>
  A store of manifest nodes: the root \<open>web\<close> at address 0, with one extra volume, its
  service \<open>worker\<close> at address 1, which declares a sub-path of its own, and at address
  2 a service that declares no command.
\<close>

definition worker :: "rat Dev" where
  "worker = dev0\<lparr> dev_Name := ''worker'', dev_Namespace := [], dev_Image := ''worker:latest'',
                  dev_Command := [''./run_worker.sh''], dev_WorkDir := [],
                  dev_MountPath := ''/src'', dev_SubPath := ''/worker'', dev_Services := [] \<rparr>"

definition store0 :: "ref \<Rightarrow> rat Dev" where
  "store0 a =
     (if a = 0 then dev0\<lparr> dev_Volumes := [''/go/pkg''], dev_Services := [1, 2] \<rparr>
      else if a = 1 then worker
      else worker\<lparr> dev_Name := ''cache'', dev_Command := [], dev_SubPath := [] \<rparr>)"

text \<open>
  The containers and rules of the tests of the two merges. Quantities are rational
  numbers of the base unit (cores, bytes); \<open>Gi\<close> is the binary suffix.
\<close>

definition Gi :: rat where
  "Gi = 2 ^ 30"

definition container0 :: "rat Container" where
  "container0 =
     \<lparr> c_Resources =
         \<lparr> rr_Limits = [ResourceMemory \<mapsto> Gi / 4, ResourceCPU \<mapsto> 1 / 8],
           rr_Requests = [ResourceMemory \<mapsto> 2 * Gi, ResourceCPU \<mapsto> 1] \<rparr>,
       c_SecurityContext =
         Some \<lparr> sc_RunAsUser = None, sc_RunAsGroup = None, sc_FSGroup = None,
                sc_Capabilities = Some \<lparr> cap_Add = [''SYS_FOO''], cap_Drop = [''SYS_BAR''] \<rparr> \<rparr> \<rparr>"

definition resources0 :: "rat ResourceRequirements" where
  "resources0 =
     \<lparr> rr_Limits = [ResourceMemory \<mapsto> Gi, ResourceCPU \<mapsto> 2],
       rr_Requests = [ResourceMemory \<mapsto> 4 * Gi, ResourceCPU \<mapsto> 1 / 8] \<rparr>"



section \<open>The pod readiness poller\<close>

subsection \<open>The loop over the listed pods\<close>

lemma collectRunningPods_Inr:
  "collectRunningPods pods acc = Inr rs \<Longrightarrow>
   rs = acc @ filter (\<lambda>p. ps_Phase (pod_Status p) = PodRunning
                          \<and> meta_DeletionTimestamp (pod_ObjectMeta p) = None) pods"
proof (induction pods arbitrary: acc)
  case Nil
  then show ?case by simp
next
  case (Cons a pods)
  show ?case
    using Cons.prems Cons.IH [of "acc @ [a]"] Cons.IH [of acc]
    by (auto split: if_splits option.splits)
qed

lemma collectRunningPods_Inr_ok:
  "collectRunningPods pods acc = Inr rs \<Longrightarrow> p \<in> set pods \<Longrightarrow>
   ps_Phase (pod_Status p) \<noteq> PodRunning \<Longrightarrow>
   initContainerFailure (ps_InitContainerStatuses (pod_Status p)) = None"
proof (induction pods arbitrary: acc)
  case Nil
  then show ?case by simp
next
  case (Cons a pods)
  show ?case
    using Cons.prems Cons.IH [of "acc @ [a]"] Cons.IH [of acc]
    by (auto split: if_splits option.splits)
qed

lemma collectRunningPods_ok:
  "\<forall>p \<in> set pods. ps_Phase (pod_Status p) \<noteq> PodRunning \<longrightarrow>
       initContainerFailure (ps_InitContainerStatuses (pod_Status p)) = None \<Longrightarrow>
   collectRunningPods pods acc =
     Inr (acc @ filter (\<lambda>p. ps_Phase (pod_Status p) = PodRunning
                              \<and> meta_DeletionTimestamp (pod_ObjectMeta p) = None) pods)"
  by (induction pods arbitrary: acc) (auto split: if_splits option.splits)

lemma collectRunningPods_Inr_iff:
  "collectRunningPods pods [] = Inr rs \<longleftrightarrow>
     (\<forall>p \<in> set pods. ps_Phase (pod_Status p) \<noteq> PodRunning \<longrightarrow>
         initContainerFailure (ps_InitContainerStatuses (pod_Status p)) = None)
     \<and> rs = filter (\<lambda>p. ps_Phase (pod_Status p) = PodRunning
                          \<and> meta_DeletionTimestamp (pod_ObjectMeta p) = None) pods"
  using collectRunningPods_Inr [of pods "[]" rs] collectRunningPods_Inr_ok [of pods "[]" rs]
    collectRunningPods_ok [of pods "[]"]
  by auto

subsection \<open>Runs of the polling loop\<close>

lemma GetByLabel_loop_returns:
  "t < maxRetries \<Longrightarrow> tries \<le> t \<Longrightarrow>
   \<forall>k. tries \<le> k \<and> k < t \<longrightarrow> GetByLabel_attempt ctx dev sel c w k = None \<Longrightarrow>
   GetByLabel_attempt ctx dev sel c w t = Some r \<Longrightarrow>
   GetByLabel_loop ctx dev sel c w tries = r"
proof (induction "t - tries" arbitrary: tries)
  case 0
  then have "tries = t" by simp
  with 0 show ?case by (simp add: GetByLabel_loop.simps [of _ _ _ _ _ t])
next
  case (Suc n)
  then have lt: "tries < t" by simp
  then have none: "GetByLabel_attempt ctx dev sel c w tries = None" using Suc.prems by simp
  have "GetByLabel_loop ctx dev sel c w (tries + 1) = r"
    using Suc.hyps(1) [of "tries + 1"] Suc.hyps(2) Suc.prems lt by simp
  with none lt Suc.prems(1) show ?case
    by (simp add: GetByLabel_loop.simps [of _ _ _ _ _ tries])
qed

lemma GetByLabel_loop_timeout:
  "\<forall>k. tries \<le> k \<and> k < maxRetries \<longrightarrow> GetByLabel_attempt ctx dev sel c w k = None \<Longrightarrow>
   GetByLabel_loop ctx dev sel c w tries = Inl timeoutError"
proof (induction "maxRetries - tries" arbitrary: tries)
  case 0
  then show ?case by (simp add: GetByLabel_loop.simps [of _ _ _ _ _ tries])
next
  case (Suc n)
  then have lt: "tries < maxRetries" by simp
  have "GetByLabel_loop ctx dev sel c w (tries + 1) = Inl timeoutError"
    using Suc.hyps(1) [of "tries + 1"] Suc.hyps(2) Suc.prems by simp
  with lt Suc.prems show ?case
    by (simp add: GetByLabel_loop.simps [of _ _ _ _ _ tries])
qed

lemma GetByLabel_loop_cases:
  "(\<exists>t. tries \<le> t \<and> t < maxRetries
        \<and> (\<forall>k. tries \<le> k \<and> k < t \<longrightarrow> GetByLabel_attempt ctx dev sel c w k = None)
        \<and> GetByLabel_attempt ctx dev sel c w t = Some (GetByLabel_loop ctx dev sel c w tries))
   \<or> ((\<forall>k. tries \<le> k \<and> k < maxRetries \<longrightarrow> GetByLabel_attempt ctx dev sel c w k = None)
        \<and> GetByLabel_loop ctx dev sel c w tries = Inl timeoutError)"
proof (cases "\<forall>k. tries \<le> k \<and> k < maxRetries \<longrightarrow> GetByLabel_attempt ctx dev sel c w k = None")
  case True
  then show ?thesis using GetByLabel_loop_timeout by blast
next
  case False
  define P where "P k \<longleftrightarrow> tries \<le> k \<and> k < maxRetries \<and> GetByLabel_attempt ctx dev sel c w k \<noteq> None" for k
  from False have "\<exists>k. P k" by (auto simp: P_def)
  then obtain t where t: "P t" "\<forall>k<t. \<not> P k"
    using exists_least_iff [of P] by auto
  then obtain r where r: "GetByLabel_attempt ctx dev sel c w t = Some r" by (auto simp: P_def)
  have "\<forall>k. tries \<le> k \<and> k < t \<longrightarrow> GetByLabel_attempt ctx dev sel c w k = None"
    using t by (auto simp: P_def)
  moreover from this have "GetByLabel_loop ctx dev sel c w tries = r"
    using GetByLabel_loop_returns [of t tries ctx dev sel c w r] t(1) r by (simp add: P_def)
  ultimately show ?thesis using t(1) r by (auto simp: P_def)
qed

lemma GetByLabel_attempt_pod_iff:
  "GetByLabel_attempt ctx dev sel c w t = Some (Inr p) \<longleftrightarrow>
     (\<exists>pods. PodsList c t (dev_Namespace dev) sel = Inr pods \<and> collectRunningPods pods [] = Inr [p])"
proof (cases "PodsList c t (dev_Namespace dev) sel")
  case (Inl msg)
  then show ?thesis by (simp add: GetByLabel_attempt_def)
next
  case (Inr pods)
  show ?thesis
  proof (cases "pods = []")
    case True
    with Inr show ?thesis
      by (auto simp: GetByLabel_attempt_def split: option.splits)
  next
    case False
    from False Inr show ?thesis
      by (auto simp: GetByLabel_attempt_def length_Suc_conv split: sum.splits)
  qed
qed

lemma GetByLabel_loop_step:
  "tries < maxRetries \<Longrightarrow>
   GetByLabel_loop ctx dev sel c w tries =
     (case GetByLabel_attempt ctx dev sel c w tries of
        Some r \<Rightarrow> r
      | None \<Rightarrow> GetByLabel_loop ctx dev sel c w (tries + 1))"
  by (simp add: GetByLabel_loop.simps [of _ _ _ _ _ tries])

subsection \<open>The check of the deployment\<close>

lemma quotaCondition_found:
  "\<exists>cond \<in> set conds. dc_Type cond = DeploymentReplicaFailure \<and> dc_Reason cond = failedCreateReason
       \<and> dc_Status cond = ConditionTrue \<and> Contains (dc_Message cond) ''exceeded quota'' \<Longrightarrow>
   quotaCondition conds = Some ErrQuota"
  by (induction conds) auto

lemma GetByLabel_attempt_no_pods:
  "PodsList c tries (dev_Namespace dev) sel = Inr [] \<Longrightarrow> tries mod 10 = 0 \<Longrightarrow>
   GetByLabel_attempt ctx dev sel c w tries =
     (case isDeploymentFailed dev c tries of
        Some err \<Rightarrow>
          if IsNotFound err \<and> w
          then (if ctx_Done ctx tries then Some (Inl (ContextError (ctx_Err ctx))) else None)
          else Some (Inl err)
      | None \<Rightarrow> (if ctx_Done ctx tries then Some (Inl (ContextError (ctx_Err ctx))) else None))"
  by (auto simp: GetByLabel_attempt_def split: option.splits)

lemma Contains_quota: "Contains (dc_Message quotaCond) ''exceeded quota''"
  by (simp add: quotaCond_def)

lemma PodsList_cluster: "PodsList (cluster pods dep) t namespace sel = Inr pods"
  by (simp add: cluster_def)

lemma Get_cluster: "Get dev0 ''staging'' (cluster pods (Inr d)) t = Inr d"
  by (simp add: Get_def dev0_def cluster_def)

lemma Get_cluster_absent: "Get dev0 ''staging'' (cluster pods (Inl msg)) t = Inl (APIError msg)"
  by (simp add: Get_def dev0_def cluster_def)

lemma dev0_Namespace: "dev_Namespace dev0 = ''staging''"
  by (simp add: dev0_def)

lemma quotaCondition_cases: "quotaCondition conds = None \<or> quotaCondition conds = Some ErrQuota"
  by (induction conds) auto

lemma isDeploymentFailed_not_found:
  "isDeploymentFailed dev c t = Some err \<and> IsNotFound err
     \<longleftrightarrow> Get dev (dev_Namespace dev) c t = Inl err \<and> IsNotFound err"
proof (cases "Get dev (dev_Namespace dev) c t")
  case (Inl e)
  then show ?thesis by (auto simp: isDeploymentFailed_def)
next
  case (Inr d)
  then show ?thesis
    using quotaCondition_cases [of "ds_Conditions (d_Status d)"]
    by (auto simp: isDeploymentFailed_def)
qed

lemma GetByLabel_attempt_flag:
  assumes "\<not> (t mod 10 = 0 \<and> PodsList c t (dev_Namespace dev) sel = Inr []
              \<and> (\<exists>err. Get dev (dev_Namespace dev) c t = Inl err \<and> IsNotFound err))"
  shows "GetByLabel_attempt ctx dev sel c True t = GetByLabel_attempt ctx dev sel c False t"
proof (cases "t mod 10 = 0 \<and> PodsList c t (dev_Namespace dev) sel = Inr []")
  case True
  with assms have "\<not> (\<exists>err. isDeploymentFailed dev c t = Some err \<and> IsNotFound err)"
    using isDeploymentFailed_not_found [of dev c t] by blast
  with True show ?thesis
    by (cases "isDeploymentFailed dev c t") (auto simp: GetByLabel_attempt_no_pods)
next
  case False
  then show ?thesis
    by (cases "PodsList c t (dev_Namespace dev) sel") (auto simp: GetByLabel_attempt_def)
qed

lemma GetByLabel_loop_flag:
  "\<forall>t. tries \<le> t \<and> t < maxRetries \<longrightarrow>
       GetByLabel_attempt ctx dev sel c True t = GetByLabel_attempt ctx dev sel c False t \<Longrightarrow>
   GetByLabel_loop ctx dev sel c True tries = GetByLabel_loop ctx dev sel c False tries"
proof (induction "maxRetries - tries" arbitrary: tries)
  case 0
  then show ?case by (simp add: GetByLabel_loop.simps [of _ _ _ _ _ tries])
next
  case (Suc n)
  then have lt: "tries < maxRetries" by simp
  have "GetByLabel_loop ctx dev sel c True (tries + 1) = GetByLabel_loop ctx dev sel c False (tries + 1)"
    using Suc.hyps(1) [of "tries + 1"] Suc.hyps(2) Suc.prems by simp
  moreover have "GetByLabel_attempt ctx dev sel c True tries = GetByLabel_attempt ctx dev sel c False tries"
    using Suc.prems lt by simp
  ultimately show ?case using lt
    by (cases "GetByLabel_attempt ctx dev sel c False tries") (simp_all add: GetByLabel_loop_step)
qed

lemma GetByLabel_attempt_other:
  "PodsList c t (dev_Namespace dev) sel = Inr [] \<Longrightarrow> t mod 10 \<noteq> 0 \<Longrightarrow>
   GetByLabel_attempt ctx dev sel c w t =
     (if ctx_Done ctx t then Some (Inl (ContextError (ctx_Err ctx))) else None)"
  by (simp add: GetByLabel_attempt_def)

text \<open>
  Claim C1, as the code has it. On an attempt whose index is a multiple of 10 and on
  which no pod is listed, \<^verbatim>\<open>GetByLabel\<close> looks at the deployment. When the deployment
  carries a replica-failure condition (reason \<^verbatim>\<open>FailedCreate\<close>, status true) whose message
  contains \<^verbatim>\<open>exceeded quota\<close>, the wait ends at once with the quota error, whether or not
  the caller asked to wait until deployed. The flag matters only on such an attempt that
  finds the deployment missing: without the flag the not-found error ends the wait;
  with the flag the attempt goes on as after a check that passed, so it returns the
  context's error when its \<^verbatim>\<open>select\<close> finds the context done and polling continues
  with the next attempt otherwise. Every other attempt comes out the same with and
  without the flag, and so does the whole wait when no attempt finds the deployment
  missing. With the flag and a context that is never done, a deployment that stays
  missing while no pod is listed keeps the wait polling up to the timeout.
\<close>

theorem GetByLabel_deployment_check:
  "(\<forall>tries d. tries < maxRetries \<and> tries mod 10 = 0
        \<and> PodsList c tries (dev_Namespace dev) selector = Inr []
        \<and> Get dev (dev_Namespace dev) c tries = Inr d
        \<and> (\<exists>cond \<in> set (ds_Conditions (d_Status d)).
              dc_Type cond = DeploymentReplicaFailure \<and> dc_Reason cond = failedCreateReason
              \<and> dc_Status cond = ConditionTrue \<and> Contains (dc_Message cond) ''exceeded quota'')
      \<longrightarrow> GetByLabel_loop ctx dev selector c False tries = Inl ErrQuota
          \<and> GetByLabel_loop ctx dev selector c True tries = Inl ErrQuota)
   \<and> (\<forall>tries err. tries < maxRetries \<and> tries mod 10 = 0
        \<and> PodsList c tries (dev_Namespace dev) selector = Inr []
        \<and> Get dev (dev_Namespace dev) c tries = Inl err \<and> IsNotFound err
      \<longrightarrow> GetByLabel_loop ctx dev selector c False tries = Inl err
          \<and> GetByLabel_loop ctx dev selector c True tries =
              (if ctx_Done ctx tries then Inl (ContextError (ctx_Err ctx))
               else GetByLabel_loop ctx dev selector c True (tries + 1)))
   \<and> (\<forall>t. \<not> (t mod 10 = 0 \<and> PodsList c t (dev_Namespace dev) selector = Inr []
               \<and> (\<exists>err. Get dev (dev_Namespace dev) c t = Inl err \<and> IsNotFound err))
      \<longrightarrow> GetByLabel_attempt ctx dev selector c True t
            = GetByLabel_attempt ctx dev selector c False t)
   \<and> ((\<forall>t<maxRetries.
          \<not> (t mod 10 = 0 \<and> PodsList c t (dev_Namespace dev) selector = Inr []
              \<and> (\<exists>err. Get dev (dev_Namespace dev) c t = Inl err \<and> IsNotFound err)))
      \<longrightarrow> GetByLabel_loop ctx dev selector c True 0 = GetByLabel_loop ctx dev selector c False 0)
   \<and> ((\<forall>t<maxRetries.
          PodsList c t (dev_Namespace dev) selector = Inr [] \<and> \<not> ctx_Done ctx t
          \<and> (t mod 10 = 0 \<longrightarrow>
                (\<exists>err. Get dev (dev_Namespace dev) c t = Inl err \<and> IsNotFound err)))
      \<longrightarrow> GetByLabel_loop ctx dev selector c True 0 = Inl timeoutError)"
proof (intro conjI allI impI)
  fix tries d
  assume h: "tries < maxRetries \<and> tries mod 10 = 0
        \<and> PodsList c tries (dev_Namespace dev) selector = Inr []
        \<and> Get dev (dev_Namespace dev) c tries = Inr d
        \<and> (\<exists>cond \<in> set (ds_Conditions (d_Status d)).
              dc_Type cond = DeploymentReplicaFailure \<and> dc_Reason cond = failedCreateReason
              \<and> dc_Status cond = ConditionTrue \<and> Contains (dc_Message cond) ''exceeded quota'')"
  then have q: "isDeploymentFailed dev c tries = Some ErrQuota"
    using quotaCondition_found [of "ds_Conditions (d_Status d)"]
    by (simp add: isDeploymentFailed_def)
  show "GetByLabel_loop ctx dev selector c False tries = Inl ErrQuota"
    using h q by (simp add: GetByLabel_loop_step GetByLabel_attempt_no_pods)
  show "GetByLabel_loop ctx dev selector c True tries = Inl ErrQuota"
    using h q by (simp add: GetByLabel_loop_step GetByLabel_attempt_no_pods)
next
  fix tries err
  assume h: "tries < maxRetries \<and> tries mod 10 = 0
        \<and> PodsList c tries (dev_Namespace dev) selector = Inr []
        \<and> Get dev (dev_Namespace dev) c tries = Inl err \<and> IsNotFound err"
  then have q: "isDeploymentFailed dev c tries = Some err"
    by (simp add: isDeploymentFailed_def)
  show "GetByLabel_loop ctx dev selector c False tries = Inl err"
    using h q by (simp add: GetByLabel_loop_step GetByLabel_attempt_no_pods)
  show "GetByLabel_loop ctx dev selector c True tries =
              (if ctx_Done ctx tries then Inl (ContextError (ctx_Err ctx))
               else GetByLabel_loop ctx dev selector c True (tries + 1))"
    using h q by (simp add: GetByLabel_loop_step GetByLabel_attempt_no_pods)
next
  fix t
  assume "\<not> (t mod 10 = 0 \<and> PodsList c t (dev_Namespace dev) selector = Inr []
               \<and> (\<exists>err. Get dev (dev_Namespace dev) c t = Inl err \<and> IsNotFound err))"
  then show "GetByLabel_attempt ctx dev selector c True t
            = GetByLabel_attempt ctx dev selector c False t"
    by (rule GetByLabel_attempt_flag)
next
  assume "\<forall>t<maxRetries.
          \<not> (t mod 10 = 0 \<and> PodsList c t (dev_Namespace dev) selector = Inr []
              \<and> (\<exists>err. Get dev (dev_Namespace dev) c t = Inl err \<and> IsNotFound err))"
  then have "\<forall>t. 0 \<le> t \<and> t < maxRetries \<longrightarrow>
       GetByLabel_attempt ctx dev selector c True t = GetByLabel_attempt ctx dev selector c False t"
    using GetByLabel_attempt_flag [of _ c dev selector ctx] by blast
  then show "GetByLabel_loop ctx dev selector c True 0 = GetByLabel_loop ctx dev selector c False 0"
    by (rule GetByLabel_loop_flag)
next
  assume h: "\<forall>t<maxRetries.
          PodsList c t (dev_Namespace dev) selector = Inr [] \<and> \<not> ctx_Done ctx t
          \<and> (t mod 10 = 0 \<longrightarrow>
                (\<exists>err. Get dev (dev_Namespace dev) c t = Inl err \<and> IsNotFound err))"
  have "GetByLabel_attempt ctx dev selector c True t = None" if t: "t < maxRetries" for t
  proof (cases "t mod 10 = 0")
    case True
    from h t have "t mod 10 = 0 \<longrightarrow>
        (\<exists>err. Get dev (dev_Namespace dev) c t = Inl err \<and> IsNotFound err)"
      by simp
    with True obtain err where "Get dev (dev_Namespace dev) c t = Inl err" "IsNotFound err"
      by auto
    then have "isDeploymentFailed dev c t = Some err" by (simp add: isDeploymentFailed_def)
    with h t True \<open>IsNotFound err\<close> show ?thesis
      by (simp add: GetByLabel_attempt_no_pods)
  next
    case False
    with h t show ?thesis by (simp add: GetByLabel_attempt_other)
  qed
  then show "GetByLabel_loop ctx dev selector c True 0 = Inl timeoutError"
    using GetByLabel_loop_timeout [of 0 ctx dev selector c True] by simp
qed

text \<open>
  The theorem on three clusters without pods: one whose deployment reports the exceeded
  quota, one whose deployment does not exist, and one whose deployment is healthy.
\<close>

theorem GetByLabel_deployment_check_witness:
  "GetByLabel_loop background dev0 ''interactive.dev.okteto.com=web''
      (cluster [] (Inr (deployment0 [quotaCond]))) False 0 = Inl ErrQuota
   \<and> GetByLabel_loop background dev0 ''interactive.dev.okteto.com=web''
      (cluster [] (Inr (deployment0 [quotaCond]))) True 0 = Inl ErrQuota
   \<and> GetByLabel_loop background dev0 ''interactive.dev.okteto.com=web''
      (cluster [] (Inl ''deployments.apps web not found'')) False 0
        = Inl (APIError ''deployments.apps web not found'')
   \<and> GetByLabel_loop cancelled dev0 ''interactive.dev.okteto.com=web''
      (cluster [] (Inl ''deployments.apps web not found'')) True 0
        = Inl (ContextError Canceled)
   \<and> GetByLabel_loop background dev0 ''interactive.dev.okteto.com=web''
      (cluster [] (Inl ''deployments.apps web not found'')) True 0 = Inl timeoutError
   \<and> GetByLabel_attempt background dev0 ''interactive.dev.okteto.com=web''
      (cluster [] (Inl ''deployments.apps web not found'')) True 5
        = GetByLabel_attempt background dev0 ''interactive.dev.okteto.com=web''
            (cluster [] (Inl ''deployments.apps web not found'')) False 5
   \<and> GetByLabel_loop background dev0 ''interactive.dev.okteto.com=web''
      (cluster [] (Inr (deployment0 []))) True 0
        = GetByLabel_loop background dev0 ''interactive.dev.okteto.com=web''
            (cluster [] (Inr (deployment0 []))) False 0"
proof -
  let ?sel = "''interactive.dev.okteto.com=web''"
  let ?quota = "cluster [] (Inr (deployment0 [quotaCond]))"
  let ?absent = "cluster [] (Inl ''deployments.apps web not found'')"
  let ?healthy = "cluster [] (Inr (deployment0 []))"
  have q: "(0::nat) < maxRetries \<and> (0::nat) mod 10 = 0
      \<and> PodsList ?quota 0 (dev_Namespace dev0) ?sel = Inr []
      \<and> Get dev0 (dev_Namespace dev0) ?quota 0 = Inr (deployment0 [quotaCond])
      \<and> (\<exists>cond \<in> set (ds_Conditions (d_Status (deployment0 [quotaCond]))).
              dc_Type cond = DeploymentReplicaFailure \<and> dc_Reason cond = failedCreateReason
              \<and> dc_Status cond = ConditionTrue \<and> Contains (dc_Message cond) ''exceeded quota'')"
    using Contains_quota
    by (simp add: maxRetries_def PodsList_cluster dev0_Namespace Get_cluster deployment0_def
        quotaCond_def failedCreateReason_def)
  have 1: "GetByLabel_loop background dev0 ?sel ?quota False 0 = Inl ErrQuota
      \<and> GetByLabel_loop background dev0 ?sel ?quota True 0 = Inl ErrQuota"
    by (rule GetByLabel_deployment_check [of ?quota dev0 ?sel background,
          THEN conjunct1, THEN spec, THEN spec, THEN mp, OF q])
  have nf: "(0::nat) < maxRetries \<and> (0::nat) mod 10 = 0
      \<and> PodsList ?absent 0 (dev_Namespace dev0) ?sel = Inr []
      \<and> Get dev0 (dev_Namespace dev0) ?absent 0 = Inl (APIError ''deployments.apps web not found'')
      \<and> IsNotFound (APIError ''deployments.apps web not found'')"
    by (simp add: maxRetries_def PodsList_cluster dev0_Namespace Get_cluster_absent)
  have 2: "GetByLabel_loop background dev0 ?sel ?absent False 0
      = Inl (APIError ''deployments.apps web not found'')"
    by (rule GetByLabel_deployment_check [of ?absent dev0 ?sel background,
          THEN conjunct2, THEN conjunct1, THEN spec, THEN spec, THEN mp, OF nf, THEN conjunct1])
  have "GetByLabel_loop cancelled dev0 ?sel ?absent True 0 =
      (if ctx_Done cancelled 0 then Inl (ContextError (ctx_Err cancelled))
       else GetByLabel_loop cancelled dev0 ?sel ?absent True (0 + 1))"
    by (rule GetByLabel_deployment_check [of ?absent dev0 ?sel cancelled,
          THEN conjunct2, THEN conjunct1, THEN spec, THEN spec, THEN mp, OF nf, THEN conjunct2])
  then have 3: "GetByLabel_loop cancelled dev0 ?sel ?absent True 0 = Inl (ContextError Canceled)"
    by (simp add: cancelled_def)
  have "\<forall>t<maxRetries.
          PodsList ?absent t (dev_Namespace dev0) ?sel = Inr [] \<and> \<not> ctx_Done background t
          \<and> (t mod 10 = 0 \<longrightarrow>
                (\<exists>err. Get dev0 (dev_Namespace dev0) ?absent t = Inl err \<and> IsNotFound err))"
    by (simp add: PodsList_cluster dev0_Namespace Get_cluster_absent background_def)
  then have 4: "GetByLabel_loop background dev0 ?sel ?absent True 0 = Inl timeoutError"
    by (rule GetByLabel_deployment_check [of ?absent dev0 ?sel background,
          THEN conjunct2, THEN conjunct2, THEN conjunct2, THEN conjunct2, THEN mp])
  have "\<not> ((5::nat) mod 10 = 0 \<and> PodsList ?absent 5 (dev_Namespace dev0) ?sel = Inr []
               \<and> (\<exists>err. Get dev0 (dev_Namespace dev0) ?absent 5 = Inl err \<and> IsNotFound err))"
    by simp
  then have 5: "GetByLabel_attempt background dev0 ?sel ?absent True 5
      = GetByLabel_attempt background dev0 ?sel ?absent False 5"
    by (rule GetByLabel_deployment_check [of ?absent dev0 ?sel background,
          THEN conjunct2, THEN conjunct2, THEN conjunct1, THEN spec, THEN mp])
  have "\<forall>t<maxRetries.
          \<not> (t mod 10 = 0 \<and> PodsList ?healthy t (dev_Namespace dev0) ?sel = Inr []
              \<and> (\<exists>err. Get dev0 (dev_Namespace dev0) ?healthy t = Inl err \<and> IsNotFound err))"
    by (simp add: dev0_Namespace Get_cluster)
  then have 6: "GetByLabel_loop background dev0 ?sel ?healthy True 0
      = GetByLabel_loop background dev0 ?sel ?healthy False 0"
    by (rule GetByLabel_deployment_check [of ?healthy dev0 ?sel background,
          THEN conjunct2, THEN conjunct2, THEN conjunct2, THEN conjunct1, THEN mp])
  show ?thesis
    by (intro conjI) (rule 1 [THEN conjunct1] 1 [THEN conjunct2] 2 3 4 5 6)+
qed

text \<open>
  Claim C1 as stated fails: the caller asks to wait until deployed, no pod is listed
  on the first attempt and the deployment reports the exceeded quota; the wait does not
  go on polling, it returns the quota error.
\<close>

theorem GetByLabel_quota_counterexample:
  "GetByLabel background dev0 OktetoInteractiveDevLabel
      (cluster [] (Inr (deployment0 [quotaCond]))) True = Inl ErrQuota"
proof -
  have q: "isDeploymentFailed dev0 (cluster [] (Inr (deployment0 [quotaCond]))) 0 = Some ErrQuota"
    using Contains_quota
    by (simp add: isDeploymentFailed_def dev0_Namespace Get_cluster deployment0_def
        failedCreateReason_def quotaCond_def)
  have "GetByLabel_attempt background dev0 sel (cluster [] (Inr (deployment0 [quotaCond]))) True 0
          = Some (Inl ErrQuota)" for sel
    using q by (simp add: GetByLabel_attempt_no_pods cluster_def)
  then show ?thesis
    by (simp add: GetByLabel_def GetByLabel_loop_step maxRetries_def)
qed

subsection \<open>The success condition and the bounds of the wait\<close>


lemma GetByLabel_attempt_not_one:
  "PodsList c t (dev_Namespace dev) sel = Inr pods \<Longrightarrow>
   length (filter (\<lambda>p. ps_Phase (pod_Status p) = PodRunning
                        \<and> meta_DeletionTimestamp (pod_ObjectMeta p) = None) pods) \<noteq> 1 \<Longrightarrow>
   GetByLabel_attempt ctx dev sel c w t \<noteq> Some (Inr r)"
proof
  assume l: "PodsList c t (dev_Namespace dev) sel = Inr pods"
    and n: "length (filter (\<lambda>p. ps_Phase (pod_Status p) = PodRunning
                        \<and> meta_DeletionTimestamp (pod_ObjectMeta p) = None) pods) \<noteq> 1"
    and "GetByLabel_attempt ctx dev sel c w t = Some (Inr r)"
  then have "collectRunningPods pods [] = Inr [r]"
    by (auto simp: GetByLabel_attempt_pod_iff)
  from collectRunningPods_Inr [OF this]
  have "length (filter (\<lambda>p. ps_Phase (pod_Status p) = PodRunning
                        \<and> meta_DeletionTimestamp (pod_ObjectMeta p) = None) pods) = length [r]"
    by simp
  with n show False by simp
qed

lemma GetByLabel_attempt_continues:
  assumes "PodsList c t (dev_Namespace dev) sel = Inr pods"
    and "length (filter (\<lambda>p. ps_Phase (pod_Status p) = PodRunning
                        \<and> meta_DeletionTimestamp (pod_ObjectMeta p) = None) pods) \<noteq> 1"
    and "\<forall>q \<in> set pods. ps_Phase (pod_Status q) \<noteq> PodRunning \<longrightarrow>
           initContainerFailure (ps_InitContainerStatuses (pod_Status q)) = None"
    and "pods = [] \<and> t mod 10 = 0 \<longrightarrow>
           (case isDeploymentFailed dev c t of None \<Rightarrow> True | Some err \<Rightarrow> IsNotFound err \<and> w)"
    and "\<not> ctx_Done ctx t"
  shows "GetByLabel_attempt ctx dev sel c w t = None"
  using assms collectRunningPods_ok [of pods "[]"]
  by (auto simp: GetByLabel_attempt_def split: option.splits)

text \<open>
  Claim C8, as the code has it. \<^verbatim>\<open>GetByLabel\<close> returns a pod exactly when some attempt
  is reached (every earlier attempt went on polling) on which the listing succeeds, no
  listed pod that is not running shows a fatal state of the init container, and exactly
  one listed pod is in the running phase with no deletion timestamp; that pod is
  returned. On an attempt where zero or more than one pod qualifies no pod is returned,
  and polling goes on to the next attempt unless the attempt ends the wait otherwise (a
  fatal init-container state, the check of the deployment on an empty listing, or
  cancellation).
\<close>

theorem GetByLabel_returns_pod:
  "(GetByLabel ctx dev label c w = Inr p \<longleftrightarrow>
      (\<exists>t<maxRetries.
          (\<forall>k<t. GetByLabel_attempt ctx dev (label @ ''='' @ dev_Name dev) c w k = None)
        \<and> (\<exists>pods. PodsList c t (dev_Namespace dev) (label @ ''='' @ dev_Name dev) = Inr pods
              \<and> (\<forall>q \<in> set pods. ps_Phase (pod_Status q) \<noteq> PodRunning \<longrightarrow>
                    initContainerFailure (ps_InitContainerStatuses (pod_Status q)) = None)
              \<and> filter (\<lambda>q. ps_Phase (pod_Status q) = PodRunning
                             \<and> meta_DeletionTimestamp (pod_ObjectMeta q) = None) pods = [p])))
   \<and> (\<forall>t pods.
         PodsList c t (dev_Namespace dev) (label @ ''='' @ dev_Name dev) = Inr pods
         \<and> length (filter (\<lambda>q. ps_Phase (pod_Status q) = PodRunning
                               \<and> meta_DeletionTimestamp (pod_ObjectMeta q) = None) pods) \<noteq> 1
       \<longrightarrow> (\<forall>r. GetByLabel_attempt ctx dev (label @ ''='' @ dev_Name dev) c w t \<noteq> Some (Inr r))
          \<and> ((\<forall>q \<in> set pods. ps_Phase (pod_Status q) \<noteq> PodRunning \<longrightarrow>
                  initContainerFailure (ps_InitContainerStatuses (pod_Status q)) = None)
              \<and> (pods = [] \<and> t mod 10 = 0 \<longrightarrow>
                   (case isDeploymentFailed dev c t of
                      None \<Rightarrow> True | Some err \<Rightarrow> IsNotFound err \<and> w))
              \<and> \<not> ctx_Done ctx t
            \<longrightarrow> GetByLabel_attempt ctx dev (label @ ''='' @ dev_Name dev) c w t = None))"
  (is "(?L \<longleftrightarrow> ?R) \<and> ?S")
proof (intro conjI iffI)
  assume l: ?L
  let ?sel = "label @ ''='' @ dev_Name dev"
  from GetByLabel_loop_cases [of 0 ctx dev ?sel c w] l
  obtain t where t: "t < maxRetries"
      "\<forall>k<t. GetByLabel_attempt ctx dev ?sel c w k = None"
      "GetByLabel_attempt ctx dev ?sel c w t = Some (Inr p)"
    by (auto simp: GetByLabel_def)
  from t(3) obtain pods where
      "PodsList c t (dev_Namespace dev) ?sel = Inr pods" "collectRunningPods pods [] = Inr [p]"
    by (auto simp: GetByLabel_attempt_pod_iff)
  with t(1,2) show ?R
    by (auto simp: collectRunningPods_Inr_iff)
next
  assume ?R
  let ?sel = "label @ ''='' @ dev_Name dev"
  from \<open>?R\<close> obtain t pods where t: "t < maxRetries"
      "\<forall>k<t. GetByLabel_attempt ctx dev ?sel c w k = None"
      "PodsList c t (dev_Namespace dev) ?sel = Inr pods"
      "collectRunningPods pods [] = Inr [p]"
    by (auto simp: collectRunningPods_Inr_iff)
  then have "GetByLabel_attempt ctx dev ?sel c w t = Some (Inr p)"
    by (auto simp: GetByLabel_attempt_pod_iff)
  with t(1,2) show ?L
    using GetByLabel_loop_returns [of t 0 ctx dev ?sel c w "Inr p"]
    by (simp add: GetByLabel_def)
next
  show ?S
    using GetByLabel_attempt_not_one GetByLabel_attempt_continues
    by (intro allI impI conjI) blast+
qed

lemma readyPod_qualifies:
  "ps_Phase (pod_Status (readyPod name)) = PodRunning"
  "meta_DeletionTimestamp (pod_ObjectMeta (readyPod name)) = None"
  by (simp_all add: readyPod_def meta0_def)

lemma crashedInitPod_fails:
  "ps_Phase (pod_Status (crashedInitPod name)) = PodPending"
  "initContainerFailure (ps_InitContainerStatuses (pod_Status (crashedInitPod name))) = Some initError"
  by (simp_all add: crashedInitPod_def OktetoInitContainer_def)

text \<open>
  The theorem on a cluster that lists one running pod, which is returned, and on a
  cluster that lists two running pods, where the first attempt goes on polling.
\<close>

theorem GetByLabel_returns_pod_witness:
  "GetByLabel background dev0 OktetoInteractiveDevLabel
      (cluster [readyPod ''web-1''] (Inr (deployment0 []))) False = Inr (readyPod ''web-1'')
   \<and> GetByLabel_attempt background dev0 (OktetoInteractiveDevLabel @ ''='' @ dev_Name dev0)
        (cluster [readyPod ''web-1'', readyPod ''web-2''] (Inr (deployment0 []))) False 0 = None"
proof
  let ?c = "cluster [readyPod ''web-1''] (Inr (deployment0 []))"
  let ?sel = "OktetoInteractiveDevLabel @ ''='' @ dev_Name dev0"
  have "\<exists>t<maxRetries.
          (\<forall>k<t. GetByLabel_attempt background dev0 ?sel ?c False k = None)
        \<and> (\<exists>pods. PodsList ?c t (dev_Namespace dev0) ?sel = Inr pods
              \<and> (\<forall>q \<in> set pods. ps_Phase (pod_Status q) \<noteq> PodRunning \<longrightarrow>
                    initContainerFailure (ps_InitContainerStatuses (pod_Status q)) = None)
              \<and> filter (\<lambda>q. ps_Phase (pod_Status q) = PodRunning
                             \<and> meta_DeletionTimestamp (pod_ObjectMeta q) = None) pods
                  = [readyPod ''web-1''])"
    by (rule exI [of _ 0]) (simp add: maxRetries_def PodsList_cluster readyPod_qualifies)
  then show "GetByLabel background dev0 OktetoInteractiveDevLabel ?c False = Inr (readyPod ''web-1'')"
    using GetByLabel_returns_pod [of background dev0 OktetoInteractiveDevLabel ?c False
        "readyPod ''web-1''"]
    by blast
next
  let ?c = "cluster [readyPod ''web-1'', readyPod ''web-2''] (Inr (deployment0 []))"
  let ?sel = "OktetoInteractiveDevLabel @ ''='' @ dev_Name dev0"
  have "PodsList ?c 0 (dev_Namespace dev0) ?sel = Inr [readyPod ''web-1'', readyPod ''web-2'']
      \<and> length (filter (\<lambda>q. ps_Phase (pod_Status q) = PodRunning
                               \<and> meta_DeletionTimestamp (pod_ObjectMeta q) = None)
                 [readyPod ''web-1'', readyPod ''web-2'']) \<noteq> 1"
    by (simp add: PodsList_cluster readyPod_qualifies)
  moreover have "(\<forall>q \<in> set [readyPod ''web-1'', readyPod ''web-2''].
        ps_Phase (pod_Status q) \<noteq> PodRunning \<longrightarrow>
        initContainerFailure (ps_InitContainerStatuses (pod_Status q)) = None)
     \<and> ([readyPod ''web-1'', readyPod ''web-2''] = [] \<and> (0::nat) mod 10 = 0 \<longrightarrow>
           (case isDeploymentFailed dev0 ?c 0 of
              None \<Rightarrow> True | Some err \<Rightarrow> IsNotFound err \<and> False))
     \<and> \<not> ctx_Done background 0"
    by (simp add: readyPod_qualifies background_def)
  ultimately show "GetByLabel_attempt background dev0 ?sel ?c False 0 = None"
    using GetByLabel_returns_pod [of background dev0 OktetoInteractiveDevLabel ?c False]
    by blast
qed

text \<open>
  Claim C8 as stated fails: on the first attempt exactly one of the two listed pods is
  running with no deletion timestamp, yet no pod is returned; the other pod's init
  container has crashed and \<^verbatim>\<open>GetByLabel\<close> returns that error.
\<close>

theorem GetByLabel_init_failure_counterexample:
  "PodsList (cluster [readyPod ''web-1'', crashedInitPod ''web-2''] (Inr (deployment0 []))) 0
      (dev_Namespace dev0) (OktetoInteractiveDevLabel @ ''='' @ dev_Name dev0)
     = Inr [readyPod ''web-1'', crashedInitPod ''web-2'']
   \<and> ps_Phase (pod_Status (readyPod ''web-1'')) = PodRunning
   \<and> meta_DeletionTimestamp (pod_ObjectMeta (readyPod ''web-1'')) = None
   \<and> ps_Phase (pod_Status (crashedInitPod ''web-2'')) = PodPending
   \<and> GetByLabel background dev0 OktetoInteractiveDevLabel
        (cluster [readyPod ''web-1'', crashedInitPod ''web-2''] (Inr (deployment0 []))) False
       = Inl initError"
proof -
  have "GetByLabel_attempt background dev0 sel
          (cluster [readyPod ''web-1'', crashedInitPod ''web-2''] (Inr (deployment0 []))) False 0
        = Some (Inl initError)" for sel
    by (simp add: GetByLabel_attempt_def PodsList_cluster readyPod_qualifies crashedInitPod_fails)
  then show ?thesis
    by (simp add: GetByLabel_def GetByLabel_loop_step maxRetries_def PodsList_cluster
        readyPod_qualifies crashedInitPod_fails)
qed

lemma GetByLabel_attempt_none_iff:
  "GetByLabel_attempt ctx dev sel c w t = None \<longleftrightarrow>
     (\<exists>pods. PodsList c t (dev_Namespace dev) sel = Inr pods
        \<and> length (filter (\<lambda>q. ps_Phase (pod_Status q) = PodRunning
                              \<and> meta_DeletionTimestamp (pod_ObjectMeta q) = None) pods) \<noteq> 1
        \<and> (\<forall>q \<in> set pods. ps_Phase (pod_Status q) \<noteq> PodRunning \<longrightarrow>
              initContainerFailure (ps_InitContainerStatuses (pod_Status q)) = None)
        \<and> (pods = [] \<and> t mod 10 = 0 \<longrightarrow>
              (case isDeploymentFailed dev c t of None \<Rightarrow> True | Some err \<Rightarrow> IsNotFound err \<and> w))
        \<and> \<not> ctx_Done ctx t)"
proof (cases "PodsList c t (dev_Namespace dev) sel")
  case (Inl msg)
  then show ?thesis by (simp add: GetByLabel_attempt_def)
next
  case (Inr pods)
  show ?thesis
  proof (cases "collectRunningPods pods []")
    case (Inl e)
    have "\<not> (\<forall>q \<in> set pods. ps_Phase (pod_Status q) \<noteq> PodRunning \<longrightarrow>
              initContainerFailure (ps_InitContainerStatuses (pod_Status q)) = None)"
    proof
      assume "\<forall>q \<in> set pods. ps_Phase (pod_Status q) \<noteq> PodRunning \<longrightarrow>
              initContainerFailure (ps_InitContainerStatuses (pod_Status q)) = None"
      from collectRunningPods_ok [OF this, of "[]"] Inl show False by simp
    qed
    moreover from Inl have "pods \<noteq> []" by auto
    ultimately show ?thesis using Inl \<open>PodsList c t (dev_Namespace dev) sel = Inr pods\<close>
      by (simp add: GetByLabel_attempt_def)
  next
    case (Inr rs)
    then have ok: "\<forall>q \<in> set pods. ps_Phase (pod_Status q) \<noteq> PodRunning \<longrightarrow>
              initContainerFailure (ps_InitContainerStatuses (pod_Status q)) = None"
      and rs: "rs = filter (\<lambda>q. ps_Phase (pod_Status q) = PodRunning
                              \<and> meta_DeletionTimestamp (pod_ObjectMeta q) = None) pods"
      by (simp_all add: collectRunningPods_Inr_iff)
    show ?thesis
    proof (cases "pods = [] \<and> t mod 10 = 0")
      case True
      with Inr \<open>PodsList c t (dev_Namespace dev) sel = Inr pods\<close> show ?thesis
        by (cases "isDeploymentFailed dev c t") (auto simp: GetByLabel_attempt_def)
    next
      case False
      with Inr ok rs \<open>PodsList c t (dev_Namespace dev) sel = Inr pods\<close> show ?thesis
        by (auto simp: GetByLabel_attempt_def)
    qed
  qed
qed

lemma GetByLabel_attempt_cancelled:
  assumes "PodsList c t (dev_Namespace dev) sel = Inr pods"
    and "length (filter (\<lambda>p. ps_Phase (pod_Status p) = PodRunning
                        \<and> meta_DeletionTimestamp (pod_ObjectMeta p) = None) pods) \<noteq> 1"
    and "\<forall>q \<in> set pods. ps_Phase (pod_Status q) \<noteq> PodRunning \<longrightarrow>
           initContainerFailure (ps_InitContainerStatuses (pod_Status q)) = None"
    and "pods = [] \<and> t mod 10 = 0 \<longrightarrow>
           (case isDeploymentFailed dev c t of None \<Rightarrow> True | Some err \<Rightarrow> IsNotFound err \<and> w)"
    and "ctx_Done ctx t"
  shows "GetByLabel_attempt ctx dev sel c w t = Some (Inl (ContextError (ctx_Err ctx)))"
  using assms collectRunningPods_ok [of pods "[]"]
  by (auto simp: GetByLabel_attempt_def split: option.splits)

lemma initContainerFailure_cases:
  "initContainerFailure statuses = Some e \<Longrightarrow> e = initError \<or> (\<exists>m. e = ErrorfFormat m)"
  by (induction statuses) (auto split: if_splits option.splits)

lemma collectRunningPods_fatal:
  "\<exists>q \<in> set pods. ps_Phase (pod_Status q) \<noteq> PodRunning
        \<and> initContainerFailure (ps_InitContainerStatuses (pod_Status q)) \<noteq> None \<Longrightarrow>
   \<exists>e. collectRunningPods pods acc = Inl e \<and> (e = initError \<or> (\<exists>m. e = ErrorfFormat m))"
proof (induction pods arbitrary: acc)
  case Nil
  then show ?case by simp
next
  case (Cons a pods)
  show ?case
  proof (cases "ps_Phase (pod_Status a) \<noteq> PodRunning
        \<and> initContainerFailure (ps_InitContainerStatuses (pod_Status a)) \<noteq> None")
    case True
    then obtain e where "initContainerFailure (ps_InitContainerStatuses (pod_Status a)) = Some e"
      by auto
    with True show ?thesis using initContainerFailure_cases [of _ e] by auto
  next
    case False
    with Cons.prems have "\<exists>q \<in> set pods. ps_Phase (pod_Status q) \<noteq> PodRunning
        \<and> initContainerFailure (ps_InitContainerStatuses (pod_Status q)) \<noteq> None"
      by auto
    from Cons.IH [OF this, of "acc @ [a]"] Cons.IH [OF this, of acc] False show ?thesis
      by (auto split: option.splits)
  qed
qed

lemma GetByLabel_attempt_fatal:
  assumes "PodsList c t (dev_Namespace dev) sel = Inr pods"
    and "\<exists>q \<in> set pods. ps_Phase (pod_Status q) \<noteq> PodRunning
        \<and> initContainerFailure (ps_InitContainerStatuses (pod_Status q)) \<noteq> None"
  shows "\<exists>e. GetByLabel_attempt ctx dev sel c w t = Some (Inl e)
            \<and> (e = initError \<or> (\<exists>m. e = ErrorfFormat m))"
proof -
  from assms(2) have ne: "pods \<noteq> []" by auto
  from collectRunningPods_fatal [OF assms(2), of "[]"]
  obtain e where "collectRunningPods pods [] = Inl e" "e = initError \<or> (\<exists>m. e = ErrorfFormat m)"
    by blast
  with assms(1) ne show ?thesis by (simp add: GetByLabel_attempt_def)
qed

lemma initError_neq: "initError \<noteq> timeoutError" "initError \<noteq> ContextError e"
  by (simp_all add: initError_def timeoutError_def)

lemma ErrorfFormat_neq: "ErrorfFormat m \<noteq> timeoutError"
  by (simp add: timeoutError_def)

text \<open>
  Claim C9, as the code has it. \<^verbatim>\<open>GetByLabel\<close> is a total function whose result is either
  what the first returning attempt returns, that attempt being one of the \<open>maxRetries\<close>
  first, or the timeout error once all \<open>maxRetries\<close> attempts have gone on polling: it
  never hangs. An attempt goes on polling exactly when the listing succeeds, the number of
  listed pods that are running with no deletion timestamp is not one, no listed pod that
  is not running shows a fatal state of the init container, the check of the deployment
  (made on an empty listing at every tenth attempt) lets the wait go on, and the context
  is not done; when all \<open>maxRetries\<close> attempts are so, the result is the timeout error.
  The context is looked at only at the end of an attempt: when an attempt that is reached
  meets all the other conditions and finds the context done, the result is the context's
  error, also on the very first attempt, and that error is not the timeout error. A first
  attempt on which exactly one listed pod is running with no deletion timestamp, and no
  listed pod shows a fatal state of the init container, returns that pod at once, also
  when the context is already done; a first attempt that lists a pod, not running, with a
  fatal state of the init container returns the error of the init container, which is
  neither the context's error nor the timeout error, also when the context is already done.
\<close>

theorem GetByLabel_terminates:
  "((\<exists>t<maxRetries.
        (\<forall>k<t. GetByLabel_attempt ctx dev (label @ ''='' @ dev_Name dev) c w k = None)
      \<and> GetByLabel_attempt ctx dev (label @ ''='' @ dev_Name dev) c w t
          = Some (GetByLabel ctx dev label c w))
    \<or> ((\<forall>k<maxRetries. GetByLabel_attempt ctx dev (label @ ''='' @ dev_Name dev) c w k = None)
        \<and> GetByLabel ctx dev label c w = Inl timeoutError))
   \<and> (\<forall>t. GetByLabel_attempt ctx dev (label @ ''='' @ dev_Name dev) c w t = None \<longleftrightarrow>
         (\<exists>pods. PodsList c t (dev_Namespace dev) (label @ ''='' @ dev_Name dev) = Inr pods
            \<and> length (filter (\<lambda>q. ps_Phase (pod_Status q) = PodRunning
                                  \<and> meta_DeletionTimestamp (pod_ObjectMeta q) = None) pods) \<noteq> 1
            \<and> (\<forall>q \<in> set pods. ps_Phase (pod_Status q) \<noteq> PodRunning \<longrightarrow>
                  initContainerFailure (ps_InitContainerStatuses (pod_Status q)) = None)
            \<and> (pods = [] \<and> t mod 10 = 0 \<longrightarrow>
                 (case isDeploymentFailed dev c t of
                    None \<Rightarrow> True | Some err \<Rightarrow> IsNotFound err \<and> w))
            \<and> \<not> ctx_Done ctx t))
   \<and> ((\<forall>t<maxRetries.
          \<exists>pods. PodsList c t (dev_Namespace dev) (label @ ''='' @ dev_Name dev) = Inr pods
            \<and> length (filter (\<lambda>q. ps_Phase (pod_Status q) = PodRunning
                                  \<and> meta_DeletionTimestamp (pod_ObjectMeta q) = None) pods) \<noteq> 1
            \<and> (\<forall>q \<in> set pods. ps_Phase (pod_Status q) \<noteq> PodRunning \<longrightarrow>
                  initContainerFailure (ps_InitContainerStatuses (pod_Status q)) = None)
            \<and> (pods = [] \<and> t mod 10 = 0 \<longrightarrow>
                 (case isDeploymentFailed dev c t of
                    None \<Rightarrow> True | Some err \<Rightarrow> IsNotFound err \<and> w))
            \<and> \<not> ctx_Done ctx t)
        \<longrightarrow> GetByLabel ctx dev label c w = Inl timeoutError)
   \<and> (\<forall>t pods. t < maxRetries
         \<and> (\<forall>k<t. GetByLabel_attempt ctx dev (label @ ''='' @ dev_Name dev) c w k = None)
         \<and> PodsList c t (dev_Namespace dev) (label @ ''='' @ dev_Name dev) = Inr pods
         \<and> length (filter (\<lambda>q. ps_Phase (pod_Status q) = PodRunning
                               \<and> meta_DeletionTimestamp (pod_ObjectMeta q) = None) pods) \<noteq> 1
         \<and> (\<forall>q \<in> set pods. ps_Phase (pod_Status q) \<noteq> PodRunning \<longrightarrow>
               initContainerFailure (ps_InitContainerStatuses (pod_Status q)) = None)
         \<and> (pods = [] \<and> t mod 10 = 0 \<longrightarrow>
              (case isDeploymentFailed dev c t of
                 None \<Rightarrow> True | Some err \<Rightarrow> IsNotFound err \<and> w))
         \<and> ctx_Done ctx t
       \<longrightarrow> GetByLabel ctx dev label c w = Inl (ContextError (ctx_Err ctx)))
   \<and> ContextError (ctx_Err ctx) \<noteq> timeoutError
   \<and> (\<forall>pods p.
         PodsList c 0 (dev_Namespace dev) (label @ ''='' @ dev_Name dev) = Inr pods
         \<and> (\<forall>q \<in> set pods. ps_Phase (pod_Status q) \<noteq> PodRunning \<longrightarrow>
               initContainerFailure (ps_InitContainerStatuses (pod_Status q)) = None)
         \<and> filter (\<lambda>q. ps_Phase (pod_Status q) = PodRunning
                        \<and> meta_DeletionTimestamp (pod_ObjectMeta q) = None) pods = [p]
       \<longrightarrow> GetByLabel ctx dev label c w = Inr p)
   \<and> (\<forall>pods.
         PodsList c 0 (dev_Namespace dev) (label @ ''='' @ dev_Name dev) = Inr pods
         \<and> (\<exists>q \<in> set pods. ps_Phase (pod_Status q) \<noteq> PodRunning
               \<and> initContainerFailure (ps_InitContainerStatuses (pod_Status q)) \<noteq> None)
       \<longrightarrow> (\<exists>e. GetByLabel ctx dev label c w = Inl e
               \<and> (e = initError \<or> (\<exists>m. e = ErrorfFormat m))
               \<and> e \<noteq> ContextError (ctx_Err ctx) \<and> e \<noteq> timeoutError))"
proof (intro conjI allI impI)
  let ?sel = "label @ ''='' @ dev_Name dev"
  show "(\<exists>t<maxRetries.
        (\<forall>k<t. GetByLabel_attempt ctx dev ?sel c w k = None)
      \<and> GetByLabel_attempt ctx dev ?sel c w t = Some (GetByLabel ctx dev label c w))
    \<or> ((\<forall>k<maxRetries. GetByLabel_attempt ctx dev ?sel c w k = None)
        \<and> GetByLabel ctx dev label c w = Inl timeoutError)"
    using GetByLabel_loop_cases [of 0 ctx dev ?sel c w] by (simp add: GetByLabel_def)
next
  fix t
  let ?sel = "label @ ''='' @ dev_Name dev"
  show "GetByLabel_attempt ctx dev ?sel c w t = None \<longleftrightarrow>
         (\<exists>pods. PodsList c t (dev_Namespace dev) ?sel = Inr pods
            \<and> length (filter (\<lambda>q. ps_Phase (pod_Status q) = PodRunning
                                  \<and> meta_DeletionTimestamp (pod_ObjectMeta q) = None) pods) \<noteq> 1
            \<and> (\<forall>q \<in> set pods. ps_Phase (pod_Status q) \<noteq> PodRunning \<longrightarrow>
                  initContainerFailure (ps_InitContainerStatuses (pod_Status q)) = None)
            \<and> (pods = [] \<and> t mod 10 = 0 \<longrightarrow>
                 (case isDeploymentFailed dev c t of
                    None \<Rightarrow> True | Some err \<Rightarrow> IsNotFound err \<and> w))
            \<and> \<not> ctx_Done ctx t)"
    by (rule GetByLabel_attempt_none_iff)
next
  let ?sel = "label @ ''='' @ dev_Name dev"
  assume "\<forall>t<maxRetries.
          \<exists>pods. PodsList c t (dev_Namespace dev) ?sel = Inr pods
            \<and> length (filter (\<lambda>q. ps_Phase (pod_Status q) = PodRunning
                                  \<and> meta_DeletionTimestamp (pod_ObjectMeta q) = None) pods) \<noteq> 1
            \<and> (\<forall>q \<in> set pods. ps_Phase (pod_Status q) \<noteq> PodRunning \<longrightarrow>
                  initContainerFailure (ps_InitContainerStatuses (pod_Status q)) = None)
            \<and> (pods = [] \<and> t mod 10 = 0 \<longrightarrow>
                 (case isDeploymentFailed dev c t of
                    None \<Rightarrow> True | Some err \<Rightarrow> IsNotFound err \<and> w))
            \<and> \<not> ctx_Done ctx t"
  then have "\<forall>k<maxRetries. GetByLabel_attempt ctx dev ?sel c w k = None"
    by (simp only: GetByLabel_attempt_none_iff [symmetric])
  then show "GetByLabel ctx dev label c w = Inl timeoutError"
    using GetByLabel_loop_timeout [of 0 ctx dev ?sel c w] by (simp add: GetByLabel_def)
next
  fix t pods
  let ?sel = "label @ ''='' @ dev_Name dev"
  assume h: "t < maxRetries
         \<and> (\<forall>k<t. GetByLabel_attempt ctx dev ?sel c w k = None)
         \<and> PodsList c t (dev_Namespace dev) ?sel = Inr pods
         \<and> length (filter (\<lambda>q. ps_Phase (pod_Status q) = PodRunning
                               \<and> meta_DeletionTimestamp (pod_ObjectMeta q) = None) pods) \<noteq> 1
         \<and> (\<forall>q \<in> set pods. ps_Phase (pod_Status q) \<noteq> PodRunning \<longrightarrow>
               initContainerFailure (ps_InitContainerStatuses (pod_Status q)) = None)
         \<and> (pods = [] \<and> t mod 10 = 0 \<longrightarrow>
              (case isDeploymentFailed dev c t of
                 None \<Rightarrow> True | Some err \<Rightarrow> IsNotFound err \<and> w))
         \<and> ctx_Done ctx t"
  then have "GetByLabel_attempt ctx dev ?sel c w t = Some (Inl (ContextError (ctx_Err ctx)))"
    using GetByLabel_attempt_cancelled [of c t dev ?sel pods w ctx] by simp
  with h show "GetByLabel ctx dev label c w = Inl (ContextError (ctx_Err ctx))"
    using GetByLabel_loop_returns [of t 0 ctx dev ?sel c w]
    by (simp add: GetByLabel_def)
next
  show "ContextError (ctx_Err ctx) \<noteq> timeoutError"
    by (simp add: timeoutError_def)
next
  fix pods p
  let ?sel = "label @ ''='' @ dev_Name dev"
  assume "PodsList c 0 (dev_Namespace dev) ?sel = Inr pods
         \<and> (\<forall>q \<in> set pods. ps_Phase (pod_Status q) \<noteq> PodRunning \<longrightarrow>
               initContainerFailure (ps_InitContainerStatuses (pod_Status q)) = None)
         \<and> filter (\<lambda>q. ps_Phase (pod_Status q) = PodRunning
                        \<and> meta_DeletionTimestamp (pod_ObjectMeta q) = None) pods = [p]"
  then have "PodsList c 0 (dev_Namespace dev) ?sel = Inr pods \<and> collectRunningPods pods [] = Inr [p]"
    by (simp add: collectRunningPods_Inr_iff)
  then have "GetByLabel_attempt ctx dev ?sel c w 0 = Some (Inr p)"
    by (auto simp: GetByLabel_attempt_pod_iff)
  then show "GetByLabel ctx dev label c w = Inr p"
    by (simp add: GetByLabel_def GetByLabel_loop_step maxRetries_def)
next
  fix pods
  let ?sel = "label @ ''='' @ dev_Name dev"
  assume h: "PodsList c 0 (dev_Namespace dev) ?sel = Inr pods
         \<and> (\<exists>q \<in> set pods. ps_Phase (pod_Status q) \<noteq> PodRunning
               \<and> initContainerFailure (ps_InitContainerStatuses (pod_Status q)) \<noteq> None)"
  from GetByLabel_attempt_fatal [OF h [THEN conjunct1] h [THEN conjunct2], of ctx w]
  obtain e where e: "GetByLabel_attempt ctx dev ?sel c w 0 = Some (Inl e)"
      "e = initError \<or> (\<exists>m. e = ErrorfFormat m)"
    by blast
  from e(1) have "GetByLabel ctx dev label c w = Inl e"
    by (simp add: GetByLabel_def GetByLabel_loop_step maxRetries_def)
  moreover from e(2) have "e \<noteq> ContextError (ctx_Err ctx) \<and> e \<noteq> timeoutError"
    using initError_neq ErrorfFormat_neq by auto
  ultimately show "\<exists>e. GetByLabel ctx dev label c w = Inl e
               \<and> (e = initError \<or> (\<exists>m. e = ErrorfFormat m))
               \<and> e \<noteq> ContextError (ctx_Err ctx) \<and> e \<noteq> timeoutError"
    using e(2) by blast
qed

lemma isDeploymentFailed_healthy:
  "isDeploymentFailed dev0 (cluster pods (Inr (deployment0 []))) t = None"
  by (simp add: isDeploymentFailed_def dev0_Namespace Get_cluster deployment0_def)

lemma GetByLabel_attempt_idle:
  "GetByLabel_attempt ctx dev0 sel (cluster [] (Inr (deployment0 []))) w t =
     (if ctx_Done ctx t then Some (Inl (ContextError (ctx_Err ctx))) else None)"
  by (simp add: GetByLabel_attempt_def PodsList_cluster isDeploymentFailed_healthy)

lemma pendingPod_waits:
  "ps_Phase (pod_Status (pendingPod name)) = PodPending"
  "initContainerFailure (ps_InitContainerStatuses (pod_Status (pendingPod name))) = None"
  by (simp_all add: pendingPod_def)

lemma GetByLabel_attempt_pending:
  "GetByLabel_attempt ctx dev0 sel (cluster [pendingPod name] (Inr (deployment0 []))) w t =
     (if ctx_Done ctx t then Some (Inl (ContextError (ctx_Err ctx))) else None)"
  by (simp add: GetByLabel_attempt_def PodsList_cluster pendingPod_waits)

text \<open>
  The theorem on a cluster without pods (timeout with a live context, the context's error
  with a context that is done from the start), on a cluster whose only pod stays pending
  while the context is done from the fourth attempt on, on a cluster that lists one
  running pod beside a pending one, and on a cluster that lists a pod whose init container
  has crashed; the last two with a context that is done from the start.
\<close>

theorem GetByLabel_terminates_witness:
  "GetByLabel background dev0 OktetoInteractiveDevLabel
      (cluster [] (Inr (deployment0 []))) False = Inl timeoutError
   \<and> GetByLabel_attempt background dev0 (OktetoInteractiveDevLabel @ ''='' @ dev_Name dev0)
      (cluster [] (Inr (deployment0 []))) False 7 = None
   \<and> GetByLabel cancelled dev0 OktetoInteractiveDevLabel
      (cluster [] (Inr (deployment0 []))) False = Inl (ContextError Canceled)
   \<and> GetByLabel (cancelledFrom 3) dev0 OktetoInteractiveDevLabel
      (cluster [pendingPod ''web-1''] (Inr (deployment0 []))) False = Inl (ContextError Canceled)
   \<and> ContextError Canceled \<noteq> timeoutError
   \<and> GetByLabel cancelled dev0 OktetoInteractiveDevLabel
      (cluster [pendingPod ''web-0'', readyPod ''web-1''] (Inr (deployment0 []))) False
       = Inr (readyPod ''web-1'')
   \<and> (\<exists>e. GetByLabel cancelled dev0 OktetoInteractiveDevLabel
            (cluster [crashedInitPod ''web-2''] (Inr (deployment0 []))) False = Inl e
          \<and> e \<noteq> ContextError Canceled \<and> e \<noteq> timeoutError)
   \<and> ((\<exists>t<maxRetries.
         GetByLabel_attempt cancelled dev0 (OktetoInteractiveDevLabel @ ''='' @ dev_Name dev0)
            (cluster [crashedInitPod ''web-2''] (Inr (deployment0 []))) False t
          = Some (GetByLabel cancelled dev0 OktetoInteractiveDevLabel
                    (cluster [crashedInitPod ''web-2''] (Inr (deployment0 []))) False))
       \<or> GetByLabel cancelled dev0 OktetoInteractiveDevLabel
            (cluster [crashedInitPod ''web-2''] (Inr (deployment0 []))) False = Inl timeoutError)"
proof (intro conjI)
  let ?c = "cluster [] (Inr (deployment0 []))"
  let ?sel = "OktetoInteractiveDevLabel @ ''='' @ dev_Name dev0"
  have "\<forall>t<maxRetries.
          \<exists>pods. PodsList ?c t (dev_Namespace dev0) ?sel = Inr pods
            \<and> length (filter (\<lambda>q. ps_Phase (pod_Status q) = PodRunning
                                  \<and> meta_DeletionTimestamp (pod_ObjectMeta q) = None) pods) \<noteq> 1
            \<and> (\<forall>q \<in> set pods. ps_Phase (pod_Status q) \<noteq> PodRunning \<longrightarrow>
                  initContainerFailure (ps_InitContainerStatuses (pod_Status q)) = None)
            \<and> (pods = [] \<and> t mod 10 = 0 \<longrightarrow>
                 (case isDeploymentFailed dev0 ?c t of
                    None \<Rightarrow> True | Some err \<Rightarrow> IsNotFound err \<and> False))
            \<and> \<not> ctx_Done background t"
    by (simp add: PodsList_cluster isDeploymentFailed_healthy background_def)
  then show "GetByLabel background dev0 OktetoInteractiveDevLabel ?c False = Inl timeoutError"
    by (rule GetByLabel_terminates [of background dev0 OktetoInteractiveDevLabel ?c False,
          THEN conjunct2, THEN conjunct2, THEN conjunct1, THEN mp])
next
  let ?c = "cluster [] (Inr (deployment0 []))"
  let ?sel = "OktetoInteractiveDevLabel @ ''='' @ dev_Name dev0"
  have "\<exists>pods. PodsList ?c 7 (dev_Namespace dev0) ?sel = Inr pods
            \<and> length (filter (\<lambda>q. ps_Phase (pod_Status q) = PodRunning
                                  \<and> meta_DeletionTimestamp (pod_ObjectMeta q) = None) pods) \<noteq> 1
            \<and> (\<forall>q \<in> set pods. ps_Phase (pod_Status q) \<noteq> PodRunning \<longrightarrow>
                  initContainerFailure (ps_InitContainerStatuses (pod_Status q)) = None)
            \<and> (pods = [] \<and> (7::nat) mod 10 = 0 \<longrightarrow>
                 (case isDeploymentFailed dev0 ?c 7 of
                    None \<Rightarrow> True | Some err \<Rightarrow> IsNotFound err \<and> False))
            \<and> \<not> ctx_Done background 7"
    by (simp add: PodsList_cluster background_def)
  then show "GetByLabel_attempt background dev0 ?sel ?c False 7 = None"
    by (rule GetByLabel_terminates [of background dev0 OktetoInteractiveDevLabel ?c False,
          THEN conjunct2, THEN conjunct1, THEN spec, THEN iffD2])
next
  let ?c = "cluster [] (Inr (deployment0 []))"
  let ?sel = "OktetoInteractiveDevLabel @ ''='' @ dev_Name dev0"
  have "(0::nat) < maxRetries
         \<and> (\<forall>k<(0::nat). GetByLabel_attempt cancelled dev0 ?sel ?c False k = None)
         \<and> PodsList ?c 0 (dev_Namespace dev0) ?sel = Inr []
         \<and> length (filter (\<lambda>q. ps_Phase (pod_Status q) = PodRunning
                               \<and> meta_DeletionTimestamp (pod_ObjectMeta q) = None) []) \<noteq> 1
         \<and> (\<forall>q \<in> set []. ps_Phase (pod_Status q) \<noteq> PodRunning \<longrightarrow>
               initContainerFailure (ps_InitContainerStatuses (pod_Status q)) = None)
         \<and> ([] = ([]::Pod list) \<and> (0::nat) mod 10 = 0 \<longrightarrow>
              (case isDeploymentFailed dev0 ?c 0 of
                 None \<Rightarrow> True | Some err \<Rightarrow> IsNotFound err \<and> False))
         \<and> ctx_Done cancelled 0"
    by (simp add: maxRetries_def PodsList_cluster isDeploymentFailed_healthy cancelled_def)
  then have "GetByLabel cancelled dev0 OktetoInteractiveDevLabel ?c False
      = Inl (ContextError (ctx_Err cancelled))"
    by (rule GetByLabel_terminates [of cancelled dev0 OktetoInteractiveDevLabel ?c False,
          THEN conjunct2, THEN conjunct2, THEN conjunct2, THEN conjunct1,
          THEN spec, THEN spec, THEN mp])
  then show "GetByLabel cancelled dev0 OktetoInteractiveDevLabel ?c False
      = Inl (ContextError Canceled)"
    by (simp add: cancelled_def)
next
  let ?c = "cluster [pendingPod ''web-1''] (Inr (deployment0 []))"
  let ?sel = "OktetoInteractiveDevLabel @ ''='' @ dev_Name dev0"
  have "(3::nat) < maxRetries
         \<and> (\<forall>k<(3::nat). GetByLabel_attempt (cancelledFrom 3) dev0 ?sel ?c False k = None)
         \<and> PodsList ?c 3 (dev_Namespace dev0) ?sel = Inr [pendingPod ''web-1'']
         \<and> length (filter (\<lambda>q. ps_Phase (pod_Status q) = PodRunning
                               \<and> meta_DeletionTimestamp (pod_ObjectMeta q) = None)
                      [pendingPod ''web-1'']) \<noteq> 1
         \<and> (\<forall>q \<in> set [pendingPod ''web-1'']. ps_Phase (pod_Status q) \<noteq> PodRunning \<longrightarrow>
               initContainerFailure (ps_InitContainerStatuses (pod_Status q)) = None)
         \<and> ([pendingPod ''web-1''] = [] \<and> (3::nat) mod 10 = 0 \<longrightarrow>
              (case isDeploymentFailed dev0 ?c 3 of
                 None \<Rightarrow> True | Some err \<Rightarrow> IsNotFound err \<and> False))
         \<and> ctx_Done (cancelledFrom 3) 3"
    by (simp add: maxRetries_def PodsList_cluster GetByLabel_attempt_pending pendingPod_waits
        cancelledFrom_def)
  then have "GetByLabel (cancelledFrom 3) dev0 OktetoInteractiveDevLabel ?c False
      = Inl (ContextError (ctx_Err (cancelledFrom 3)))"
    by (rule GetByLabel_terminates [of "cancelledFrom 3" dev0 OktetoInteractiveDevLabel ?c False,
          THEN conjunct2, THEN conjunct2, THEN conjunct2, THEN conjunct1,
          THEN spec, THEN spec, THEN mp])
  then show "GetByLabel (cancelledFrom 3) dev0 OktetoInteractiveDevLabel ?c False
      = Inl (ContextError Canceled)"
    by (simp add: cancelledFrom_def)
next
  have "ContextError (ctx_Err cancelled) \<noteq> timeoutError"
    by (rule GetByLabel_terminates [of cancelled dev0 OktetoInteractiveDevLabel
          "cluster [] (Inr (deployment0 []))" False,
          THEN conjunct2, THEN conjunct2, THEN conjunct2, THEN conjunct2, THEN conjunct1])
  then show "ContextError Canceled \<noteq> timeoutError"
    by (simp add: cancelled_def)
next
  let ?c = "cluster [pendingPod ''web-0'', readyPod ''web-1''] (Inr (deployment0 []))"
  let ?sel = "OktetoInteractiveDevLabel @ ''='' @ dev_Name dev0"
  have "PodsList ?c 0 (dev_Namespace dev0) ?sel = Inr [pendingPod ''web-0'', readyPod ''web-1'']
         \<and> (\<forall>q \<in> set [pendingPod ''web-0'', readyPod ''web-1''].
               ps_Phase (pod_Status q) \<noteq> PodRunning \<longrightarrow>
               initContainerFailure (ps_InitContainerStatuses (pod_Status q)) = None)
         \<and> filter (\<lambda>q. ps_Phase (pod_Status q) = PodRunning
                        \<and> meta_DeletionTimestamp (pod_ObjectMeta q) = None)
              [pendingPod ''web-0'', readyPod ''web-1''] = [readyPod ''web-1'']"
    by (simp add: PodsList_cluster readyPod_qualifies pendingPod_waits)
  then show "GetByLabel cancelled dev0 OktetoInteractiveDevLabel ?c False = Inr (readyPod ''web-1'')"
    by (rule GetByLabel_terminates [of cancelled dev0 OktetoInteractiveDevLabel ?c False,
          THEN conjunct2, THEN conjunct2, THEN conjunct2, THEN conjunct2, THEN conjunct2,
          THEN conjunct1, THEN spec, THEN spec, THEN mp])
next
  let ?c = "cluster [crashedInitPod ''web-2''] (Inr (deployment0 []))"
  let ?sel = "OktetoInteractiveDevLabel @ ''='' @ dev_Name dev0"
  have "PodsList ?c 0 (dev_Namespace dev0) ?sel = Inr [crashedInitPod ''web-2'']
         \<and> (\<exists>q \<in> set [crashedInitPod ''web-2'']. ps_Phase (pod_Status q) \<noteq> PodRunning
               \<and> initContainerFailure (ps_InitContainerStatuses (pod_Status q)) \<noteq> None)"
    by (simp add: PodsList_cluster crashedInitPod_fails)
  then have "\<exists>e. GetByLabel cancelled dev0 OktetoInteractiveDevLabel ?c False = Inl e
               \<and> (e = initError \<or> (\<exists>m. e = ErrorfFormat m))
               \<and> e \<noteq> ContextError (ctx_Err cancelled) \<and> e \<noteq> timeoutError"
    by (rule GetByLabel_terminates [of cancelled dev0 OktetoInteractiveDevLabel ?c False,
          THEN conjunct2, THEN conjunct2, THEN conjunct2, THEN conjunct2, THEN conjunct2,
          THEN conjunct2, THEN spec, THEN mp])
  then obtain e where "GetByLabel cancelled dev0 OktetoInteractiveDevLabel ?c False = Inl e"
      "e \<noteq> ContextError (ctx_Err cancelled)" "e \<noteq> timeoutError"
    by blast
  then show "\<exists>e. GetByLabel cancelled dev0 OktetoInteractiveDevLabel ?c False = Inl e
          \<and> e \<noteq> ContextError Canceled \<and> e \<noteq> timeoutError"
    by (simp add: cancelled_def)
next
  let ?c = "cluster [crashedInitPod ''web-2''] (Inr (deployment0 []))"
  let ?sel = "OktetoInteractiveDevLabel @ ''='' @ dev_Name dev0"
  have "(\<exists>t<maxRetries.
        (\<forall>k<t. GetByLabel_attempt cancelled dev0 ?sel ?c False k = None)
      \<and> GetByLabel_attempt cancelled dev0 ?sel ?c False t
          = Some (GetByLabel cancelled dev0 OktetoInteractiveDevLabel ?c False))
    \<or> ((\<forall>k<maxRetries. GetByLabel_attempt cancelled dev0 ?sel ?c False k = None)
        \<and> GetByLabel cancelled dev0 OktetoInteractiveDevLabel ?c False = Inl timeoutError)"
    by (rule GetByLabel_terminates [of cancelled dev0 OktetoInteractiveDevLabel ?c False,
          THEN conjunct1])
  then show "(\<exists>t<maxRetries.
         GetByLabel_attempt cancelled dev0 ?sel ?c False t
          = Some (GetByLabel cancelled dev0 OktetoInteractiveDevLabel ?c False))
       \<or> GetByLabel cancelled dev0 OktetoInteractiveDevLabel ?c False = Inl timeoutError"
    by blast
qed

text \<open>
  Claim C9 as stated fails: the context is cancelled before any attempt completes, yet
  \<^verbatim>\<open>GetByLabel\<close> does not return the context's error. The first attempt lists a pod
  whose init container has crashed and returns that error; on a cluster whose only pod is
  running the first attempt returns the pod.
\<close>

theorem GetByLabel_cancelled_counterexample:
  "ctx_Done cancelled 0
   \<and> ctx_Err cancelled = Canceled
   \<and> GetByLabel cancelled dev0 OktetoInteractiveDevLabel
        (cluster [crashedInitPod ''web-2''] (Inr (deployment0 []))) False = Inl initError
   \<and> initError \<noteq> ContextError Canceled
   \<and> GetByLabel cancelled dev0 OktetoInteractiveDevLabel
        (cluster [readyPod ''web-1''] (Inr (deployment0 []))) False = Inr (readyPod ''web-1'')"
proof -
  have "GetByLabel_attempt cancelled dev0 sel
          (cluster [crashedInitPod ''web-2''] (Inr (deployment0 []))) False 0
        = Some (Inl initError)" for sel
    by (simp add: GetByLabel_attempt_def PodsList_cluster crashedInitPod_fails)
  moreover have "GetByLabel_attempt cancelled dev0 sel
          (cluster [readyPod ''web-1''] (Inr (deployment0 []))) False 0
        = Some (Inr (readyPod ''web-1''))" for sel
    by (simp add: GetByLabel_attempt_def PodsList_cluster readyPod_qualifies)
  ultimately show ?thesis
    by (simp add: GetByLabel_def GetByLabel_loop_step maxRetries_def cancelled_def initError_def)
qed

section \<open>The restart orchestrator\<close>


lemma waitUntilRunning_loop_step:
  "i < 60 \<Longrightarrow>
   waitUntilRunning_loop namespace selector c i notready =
     (case PodsList c i namespace selector of
        Inl msg \<Rightarrow> Some retrieveError
      | Inr pods \<Rightarrow>
          (case classifyPods pods True notready of
             Inl err \<Rightarrow> Some err
           | Inr (allRunning, notready') \<Rightarrow>
               if allRunning then None
               else waitUntilRunning_loop namespace selector c (i + 1) notready'))"
  by (simp add: waitUntilRunning_loop.simps [of _ _ _ i])

lemma deletePods_all_deleted:
  "\<forall>p \<in> set pods. PodsDelete c 0 namespace (meta_Name (pod_ObjectMeta p)) = None \<Longrightarrow>
   deletePods c namespace pods = (map (\<lambda>p. meta_Name (pod_ObjectMeta p)) pods, None)"
  by (induction pods) auto

text \<open>
  Claim C10. In any iteration of the wait loop in which the listing of the pods comes
  back empty, \<^verbatim>\<open>allRunning\<close> stays true and \<^verbatim>\<open>waitUntilRunning\<close> returns success at
  once, whatever \<^verbatim>\<open>notready\<close> holds by then. So when every delete succeeds and the first
  listing of the wait is empty, \<^verbatim>\<open>Restart\<close> reports success although no pod was ever
  seen running and ready.
\<close>

theorem Restart_succeeds_on_empty_listing:
  "(\<forall>i<60. PodsList c i namespace selector = Inr []
        \<longrightarrow> waitUntilRunning_loop namespace selector c i notready = None)
   \<and> (\<forall>pods. PodsList c 0 (dev_Namespace dev) (OktetoDetachedDevLabel @ ''='' @ dev_Name dev)
               = Inr pods
            \<and> (\<forall>p \<in> set pods.
                  PodsDelete c 0 (dev_Namespace dev) (meta_Name (pod_ObjectMeta p)) = None)
            \<and> PodsList c 1 (dev_Namespace dev) (OktetoDetachedDevLabel @ ''='' @ dev_Name dev)
               = Inr []
        \<longrightarrow> Restart dev c = None)"
proof (intro conjI allI impI)
  fix i :: nat
  assume "i < 60" and "PodsList c i namespace selector = Inr []"
  then show "waitUntilRunning_loop namespace selector c i notready = None"
    by (simp add: waitUntilRunning_loop_step)
next
  fix pods
  let ?sel = "OktetoDetachedDevLabel @ ''='' @ dev_Name dev"
  assume h: "PodsList c 0 (dev_Namespace dev) ?sel = Inr pods
            \<and> (\<forall>p \<in> set pods.
                  PodsDelete c 0 (dev_Namespace dev) (meta_Name (pod_ObjectMeta p)) = None)
            \<and> PodsList c 1 (dev_Namespace dev) ?sel = Inr []"
  then have d: "snd (deletePods c (dev_Namespace dev) pods) = None"
    by (simp add: deletePods_all_deleted)
  have "PodsList (later c) 0 (dev_Namespace dev) ?sel = Inr []"
    using h by (simp add: later_def)
  then have "waitUntilRunning (dev_Namespace dev) ?sel (later c) = None"
    by (simp add: waitUntilRunning_def waitUntilRunning_loop_step)
  with h d show "Restart dev c = None"
    by (simp add: Restart_def)
qed

lemma PodsList_restartCluster:
  "PodsList (restartCluster before answer after) t namespace sel
     = Inr (if t = 0 then before else after)"
  by (simp add: restartCluster_def)

lemma PodsDelete_restartCluster:
  "PodsDelete (restartCluster before answer after) t namespace name = answer name"
  by (simp add: restartCluster_def)

text \<open>
  The theorem on a cluster whose only pod is pending when \<^verbatim>\<open>Restart\<close> lists it, and
  which lists no pod afterwards.
\<close>

theorem Restart_succeeds_on_empty_listing_witness:
  "waitUntilRunning_loop ''staging'' ''detached.dev.okteto.com=web''
      (restartCluster [pendingPod ''web-1''] deleted []) 7 [''web-1''] = None
   \<and> Restart dev0 (restartCluster [pendingPod ''web-1''] deleted []) = None"
proof
  let ?c = "restartCluster [pendingPod ''web-1''] deleted []"
  have "(7::nat) < 60" by simp
  moreover have "PodsList ?c 7 ''staging'' ''detached.dev.okteto.com=web'' = Inr []"
    by (simp add: PodsList_restartCluster)
  ultimately show "waitUntilRunning_loop ''staging'' ''detached.dev.okteto.com=web'' ?c 7 [''web-1'']
      = None"
    using Restart_succeeds_on_empty_listing [of ?c "''staging''" "''detached.dev.okteto.com=web''"
        "[''web-1'']" dev0]
    by blast
next
  let ?c = "restartCluster [pendingPod ''web-1''] deleted []"
  let ?sel = "OktetoDetachedDevLabel @ ''='' @ dev_Name dev0"
  have "PodsList ?c 0 (dev_Namespace dev0) ?sel = Inr [pendingPod ''web-1'']
      \<and> (\<forall>p \<in> set [pendingPod ''web-1''].
            PodsDelete ?c 0 (dev_Namespace dev0) (meta_Name (pod_ObjectMeta p)) = None)
      \<and> PodsList ?c 1 (dev_Namespace dev0) ?sel = Inr []"
    by (simp add: PodsList_restartCluster PodsDelete_restartCluster deleted_def)
  then show "Restart dev0 ?c = None"
    using Restart_succeeds_on_empty_listing [of ?c "''staging''" "''detached.dev.okteto.com=web''"
        "[]" dev0]
    by blast
qed

lemma pod_names:
  "meta_Name (pod_ObjectMeta (readyPod name)) = name"
  "meta_Name (pod_ObjectMeta (failedPod name)) = name"
  "meta_Name (pod_ObjectMeta (pendingPod name)) = name"
  by (simp_all add: readyPod_def failedPod_def pendingPod_def meta0_def)

lemma failedPod_phase: "ps_Phase (pod_Status (failedPod name)) = PodFailed"
  by (simp add: failedPod_def)

lemma Contains_not_found: "Contains (''pods '' @ ''web-1'' @ '' not found'') ''not found''"
  by simp

text \<open>
  Claim C3 against the code. Two pods are listed and the first one is already gone when
  its delete request arrives: the deleting loop returns from \<^verbatim>\<open>Restart\<close> with success
  right there. No delete request is sent for the second pod, and \<^verbatim>\<open>Restart\<close> does not
  wait: the wait, had it run, would have reported the failed replacement pod.
\<close>

theorem Restart_stops_at_missing_pod:
  "deletePods (restartCluster [readyPod ''web-1'', readyPod ''web-2''] (alreadyGone ''web-1'')
                 [failedPod ''web-2''])
      ''staging'' [readyPod ''web-1'', readyPod ''web-2'']
     = ([''web-1''], Some None)
   \<and> Restart dev0 (restartCluster [readyPod ''web-1'', readyPod ''web-2''] (alreadyGone ''web-1'')
                 [failedPod ''web-2''])
     = None
   \<and> waitUntilRunning ''staging'' (OktetoDetachedDevLabel @ ''='' @ dev_Name dev0)
        (later (restartCluster [readyPod ''web-1'', readyPod ''web-2''] (alreadyGone ''web-1'')
                 [failedPod ''web-2'']))
     = Some (Errorf ''Pod web-2 failed to start'')"
proof (intro conjI)
  let ?c = "restartCluster [readyPod ''web-1'', readyPod ''web-2''] (alreadyGone ''web-1'')
                 [failedPod ''web-2'']"
  show d: "deletePods ?c ''staging'' [readyPod ''web-1'', readyPod ''web-2'']
      = ([''web-1''], Some None)"
    using Contains_not_found
    by (simp add: PodsDelete_restartCluster pod_names alreadyGone_def)
  then show "Restart dev0 ?c = None"
    by (simp add: Restart_def PodsList_restartCluster dev0_Namespace)
  have "PodsList (later ?c) 0 ns sel = Inr [failedPod ''web-2'']" for ns sel
    by (simp add: later_def PodsList_restartCluster)
  then show "waitUntilRunning ''staging'' (OktetoDetachedDevLabel @ ''='' @ dev_Name dev0) (later ?c)
     = Some (Errorf ''Pod web-2 failed to start'')"
    by (simp add: waitUntilRunning_def waitUntilRunning_loop_step pod_names failedPod_phase)
qed


section \<open>The translation rule of a manifest node\<close>


text \<open>
  Claim C7. For the root node (\<^verbatim>\<open>main == dev\<close>) the rule has health checks off and the
  command \<^verbatim>\<open>tail\<close> with the arguments \<^verbatim>\<open>-f /dev/null\<close>, whatever command the manifest
  declares. For a service node the rule has health checks on; when the service
  declares a non-empty command, that command is the rule's command and the arguments
  are the empty list, and when it declares none the rule sets neither.
\<close>

theorem ToTranslationRule_command:
  "(dev = main \<longrightarrow>
      \<not> rule_Healthchecks (ToTranslationRule h dev main)
      \<and> rule_Command (ToTranslationRule h dev main) = Some [''tail'']
      \<and> rule_Args (ToTranslationRule h dev main) = Some [''-f'', ''/dev/null''])
   \<and> (dev \<noteq> main \<longrightarrow>
      rule_Healthchecks (ToTranslationRule h dev main)
      \<and> (dev_Command (h dev) \<noteq> [] \<longrightarrow>
            rule_Command (ToTranslationRule h dev main) = Some (dev_Command (h dev))
            \<and> rule_Args (ToTranslationRule h dev main) = Some [])
      \<and> (dev_Command (h dev) = [] \<longrightarrow>
            rule_Command (ToTranslationRule h dev main) = None
            \<and> rule_Args (ToTranslationRule h dev main) = None))"
proof (cases "dev = main")
  case True
  then show ?thesis
    by (simp add: ToTranslationRule_def Let_def)
next
  case False
  show ?thesis
  proof (cases "dev_Command (h dev)")
    case Nil
    with False show ?thesis
      by (simp add: ToTranslationRule_def Let_def)
  next
    case (Cons a as)
    with False show ?thesis
      by (simp add: ToTranslationRule_def Let_def)
  qed
qed

lemma store0_Command:
  "dev_Command (store0 0) = [''./run_web.sh'']"
  "dev_Command (store0 1) = [''./run_worker.sh'']"
  "dev_Command (store0 (Suc 0)) = [''./run_worker.sh'']"
  "dev_Command (store0 2) = []"
  by (simp_all add: store0_def dev0_def worker_def)

text \<open>
  The theorem on the root \<open>web\<close>, which declares a command of its own, on the service
  \<open>worker\<close>, and on a service without command.
\<close>

theorem ToTranslationRule_command_witness:
  "\<not> rule_Healthchecks (ToTranslationRule store0 0 0)
   \<and> rule_Command (ToTranslationRule store0 0 0) = Some [''tail'']
   \<and> rule_Args (ToTranslationRule store0 0 0) = Some [''-f'', ''/dev/null'']
   \<and> rule_Healthchecks (ToTranslationRule store0 1 0)
   \<and> rule_Command (ToTranslationRule store0 1 0) = Some [''./run_worker.sh'']
   \<and> rule_Args (ToTranslationRule store0 1 0) = Some []
   \<and> rule_Healthchecks (ToTranslationRule store0 2 0)
   \<and> rule_Command (ToTranslationRule store0 2 0) = None
   \<and> rule_Args (ToTranslationRule store0 2 0) = None"
  using ToTranslationRule_command [of 0 0 store0] ToTranslationRule_command [of 1 0 store0]
    ToTranslationRule_command [of 2 0 store0]
  by (simp add: store0_Command)

lemma appendVolumes_length:
  "length (appendVolumes main vs i volumes) = length volumes + length vs"
  by (induction vs arbitrary: i volumes) auto

lemma appendVolumes_old:
  "k < length volumes \<Longrightarrow> appendVolumes main vs i volumes ! k = volumes ! k"
  by (induction vs arbitrary: i volumes) (auto simp: nth_append)

lemma appendVolumes_new:
  "k < length vs \<Longrightarrow>
   appendVolumes main vs i volumes ! (length volumes + k) =
     \<lparr> vm_Name = oktetoVolumeName, vm_MountPath = vs ! k,
       vm_SubPath = FullSubPath main (int (i + k) + 1) (dev_SubPath main) \<rparr>"
proof (induction vs arbitrary: i volumes k)
  case Nil
  then show ?case by simp
next
  case (Cons v vs)
  show ?case
  proof (cases k)
    case 0
    then show ?thesis by (simp add: appendVolumes_old)
  next
    case (Suc j)
    with Cons.prems have "j < length vs" by simp
    from Cons.IH [OF this, of "i + 1" "volumes @ [\<lparr> vm_Name = oktetoVolumeName, vm_MountPath = v,
                     vm_SubPath = FullSubPath main (int i + 1) (dev_SubPath main) \<rparr>]"]
    show ?thesis using Suc by (simp add: add.commute add.left_commute)
  qed
qed

lemma ToTranslationRule_Volumes:
  "rule_Volumes (ToTranslationRule h dev main) =
     appendVolumes (h main) (dev_Volumes (h dev)) 0
       [\<lparr> vm_Name = oktetoVolumeName, vm_MountPath = dev_MountPath (h dev),
          vm_SubPath = FullSubPath (h main) 0 (dev_SubPath (h dev)) \<rparr>]"
  by (simp add: ToTranslationRule_def Let_def)

lemma digit_not_slash: "n < 10 \<Longrightarrow> digit n \<noteq> CHR ''/''"
proof -
  assume "n < 10"
  then have "n \<in> {0, 1, 2, 3, 4, 5, 6, 7, 8, 9}" by auto
  then show ?thesis by (auto simp: digit_def)
qed

lemma decimal_no_slash: "CHR ''/'' \<notin> set (decimal n)"
proof (induction n rule: decimal.induct)
  case (1 n)
  show ?case
  proof (cases "n < 10")
    case True
    then show ?thesis using digit_not_slash [of n] by (simp add: decimal.simps [of n])
  next
    case False
    then show ?thesis using 1 digit_not_slash [of "n mod 10"]
      by (simp add: decimal.simps [of n])
  qed
qed

lemma split_slash_plain: "CHR ''/'' \<notin> set a \<Longrightarrow> split_slash a = [a]"
  by (induction a) auto

lemma split_slash_append:
  "CHR ''/'' \<notin> set a \<Longrightarrow> split_slash (a @ CHR ''/'' # b) = a # split_slash b"
  by (induction a) auto

lemma split_slash_Join:
  "es \<noteq> [] \<Longrightarrow> \<forall>e \<in> set es. CHR ''/'' \<notin> set e \<Longrightarrow> split_slash (strings_Join es ''/'') = es"
proof (induction es)
  case Nil
  then show ?case by simp
next
  case (Cons e es)
  show ?case
  proof (cases es)
    case Nil
    with Cons.prems show ?thesis by (simp add: split_slash_plain)
  next
    case (Cons x xs)
    with Cons.prems Cons.IH show ?thesis
      using split_slash_append [of e "strings_Join (x # xs) ''/''"] by simp
  qed
qed

lemma clean_elems_plain:
  "\<forall>e \<in> set es. plainElement e \<Longrightarrow> clean_elems rooted es out = out @ es"
  by (induction es arbitrary: out) (auto simp: plainElement_def)

lemma strings_Join_Cons: "strings_Join (e # es) sep = e @ (if es = [] then [] else sep @ strings_Join es sep)"
  by (cases es) auto

lemma Clean_plain:
  assumes "es \<noteq> []" and "\<forall>e \<in> set es. plainElement e"
  shows "Clean (strings_Join es ''/'') = strings_Join es ''/''"
proof -
  from assms obtain e es' where es: "es = e # es'" by (cases es) auto
  with assms have e: "e \<noteq> []" "CHR ''/'' \<notin> set e" by (auto simp: plainElement_def)
  then obtain c cs where c: "e = c # cs" "c \<noteq> CHR ''/''" by (cases e) auto
  have ne: "strings_Join es ''/'' \<noteq> []" and hd: "hd (strings_Join es ''/'') \<noteq> CHR ''/''"
    using es c by (simp_all add: strings_Join_Cons)
  have sp: "split_slash (strings_Join es ''/'') = es"
    using assms by (intro split_slash_Join) (auto simp: plainElement_def)
  show ?thesis
    using ne hd sp assms by (simp add: Clean_def Let_def clean_elems_plain)
qed

lemma filepath_Join_plain:
  assumes "es \<noteq> []" and "\<forall>e \<in> set es. plainElement e"
  shows "filepath_Join es = strings_Join es ''/''"
proof -
  from assms obtain e es' where es: "es = e # es'" by (cases es) auto
  with assms have "e \<noteq> []" by (auto simp: plainElement_def)
  then have "dropWhile (\<lambda>e. e = []) es = es" using es by simp
  then show ?thesis using Clean_plain [OF assms] es by (simp add: filepath_Join_def)
qed

lemma plainElement_data: "plainElement (''data-'' @ Sprintf_d (int n))"
  using decimal_no_slash [of n] by (simp add: plainElement_def Sprintf_d_def)

lemma FullSubPath_plain:
  "plainElement (dev_Name m) \<Longrightarrow> dev_SubPath m = [] \<Longrightarrow>
   FullSubPath m (int n) sp = dev_Name m @ ''/data-'' @ decimal n"
  "plainElement (dev_Name m) \<Longrightarrow> plainElement (dev_SubPath m) \<Longrightarrow>
   FullSubPath m (int n) sp = dev_Name m @ ''/data-'' @ decimal n @ ''/'' @ dev_SubPath m"
  using plainElement_data [of n]
  by (auto simp: FullSubPath_def filepath_Join_plain plainElement_def Sprintf_d_def)

lemma ToTranslationRule_first:
  "rule_Volumes (ToTranslationRule h dev main) ! 0 =
     \<lparr> vm_Name = oktetoVolumeName, vm_MountPath = dev_MountPath (h dev),
       vm_SubPath = FullSubPath (h main) 0 (dev_SubPath (h dev)) \<rparr>"
  by (simp add: ToTranslationRule_Volumes appendVolumes_old)

lemma ToTranslationRule_further:
  "i < length (dev_Volumes (h dev)) \<Longrightarrow>
   rule_Volumes (ToTranslationRule h dev main) ! (i + 1) =
     \<lparr> vm_Name = oktetoVolumeName, vm_MountPath = dev_Volumes (h dev) ! i,
       vm_SubPath = FullSubPath (h main) (int i + 1) (dev_SubPath (h main)) \<rparr>"
  using appendVolumes_new [of i "dev_Volumes (h dev)" "h main" 0
      "[\<lparr> vm_Name = oktetoVolumeName, vm_MountPath = dev_MountPath (h dev),
          vm_SubPath = FullSubPath (h main) 0 (dev_SubPath (h dev)) \<rparr>]"]
  by (simp add: ToTranslationRule_Volumes)

text \<open>
  Claim C4. A rule has one mount more than the node declares volumes. The first
  mount's sub-path is \<^verbatim>\<open>filepath.Join\<close> of the root's name and \<^verbatim>\<open>data-0\<close>, and of the
  root's own sub-path when that is not empty; the mount of the \<open>i\<close>-th declared volume
  is at that volume's path, with the sub-path built in the same way from
  \<^verbatim>\<open>data-(i+1)\<close>. A sub-path that a service node declares for itself has no influence on
  its first mount. Where the root's name is a plain path element, as every valid name
  is, the joined paths are literally \<^verbatim>\<open>name/data-0\<close> and \<^verbatim>\<open>name/data-(i+1)\<close>, followed
  by a slash and the root's sub-path when that is a plain element too.
\<close>

theorem ToTranslationRule_subpaths:
  "length (rule_Volumes (ToTranslationRule h dev main)) = 1 + length (dev_Volumes (h dev))
   \<and> vm_SubPath (rule_Volumes (ToTranslationRule h dev main) ! 0) =
       (if dev_SubPath (h main) = [] then filepath_Join [dev_Name (h main), ''data-0'']
        else filepath_Join [dev_Name (h main), ''data-0'', dev_SubPath (h main)])
   \<and> (\<forall>i<length (dev_Volumes (h dev)).
         vm_MountPath (rule_Volumes (ToTranslationRule h dev main) ! (i + 1))
           = dev_Volumes (h dev) ! i
       \<and> vm_SubPath (rule_Volumes (ToTranslationRule h dev main) ! (i + 1)) =
           (if dev_SubPath (h main) = []
            then filepath_Join [dev_Name (h main), ''data-'' @ Sprintf_d (int i + 1)]
            else filepath_Join [dev_Name (h main), ''data-'' @ Sprintf_d (int i + 1),
                                dev_SubPath (h main)]))
   \<and> (dev \<noteq> main \<longrightarrow>
        (\<forall>subPath.
           vm_SubPath (rule_Volumes
              (ToTranslationRule (h(dev := (h dev)\<lparr> dev_SubPath := subPath \<rparr>)) dev main) ! 0)
           = vm_SubPath (rule_Volumes (ToTranslationRule h dev main) ! 0)))
   \<and> (plainElement (dev_Name (h main)) \<and> dev_SubPath (h main) = [] \<longrightarrow>
        vm_SubPath (rule_Volumes (ToTranslationRule h dev main) ! 0)
          = dev_Name (h main) @ ''/data-0''
        \<and> (\<forall>i<length (dev_Volumes (h dev)).
              vm_SubPath (rule_Volumes (ToTranslationRule h dev main) ! (i + 1))
                = dev_Name (h main) @ ''/data-'' @ decimal (i + 1)))
   \<and> (plainElement (dev_Name (h main)) \<and> plainElement (dev_SubPath (h main)) \<longrightarrow>
        vm_SubPath (rule_Volumes (ToTranslationRule h dev main) ! 0)
          = dev_Name (h main) @ ''/data-0/'' @ dev_SubPath (h main)
        \<and> (\<forall>i<length (dev_Volumes (h dev)).
              vm_SubPath (rule_Volumes (ToTranslationRule h dev main) ! (i + 1))
                = dev_Name (h main) @ ''/data-'' @ decimal (i + 1) @ ''/'' @ dev_SubPath (h main)))"
proof (intro conjI allI impI)
  show "length (rule_Volumes (ToTranslationRule h dev main)) = 1 + length (dev_Volumes (h dev))"
    by (simp add: ToTranslationRule_Volumes appendVolumes_length)
next
  show "vm_SubPath (rule_Volumes (ToTranslationRule h dev main) ! 0) =
       (if dev_SubPath (h main) = [] then filepath_Join [dev_Name (h main), ''data-0'']
        else filepath_Join [dev_Name (h main), ''data-0'', dev_SubPath (h main)])"
    by (simp add: ToTranslationRule_first FullSubPath_def Sprintf_d_def decimal.simps [of 0]
        digit_def)
next
  fix i assume "i < length (dev_Volumes (h dev))"
  then show "vm_MountPath (rule_Volumes (ToTranslationRule h dev main) ! (i + 1))
           = dev_Volumes (h dev) ! i"
    by (simp only: ToTranslationRule_further) simp
next
  fix i assume "i < length (dev_Volumes (h dev))"
  then show "vm_SubPath (rule_Volumes (ToTranslationRule h dev main) ! (i + 1)) =
           (if dev_SubPath (h main) = []
            then filepath_Join [dev_Name (h main), ''data-'' @ Sprintf_d (int i + 1)]
            else filepath_Join [dev_Name (h main), ''data-'' @ Sprintf_d (int i + 1),
                                dev_SubPath (h main)])"
    by (simp only: ToTranslationRule_further) (simp add: FullSubPath_def)
next
  fix subPath assume "dev \<noteq> main"
  then show "vm_SubPath (rule_Volumes
              (ToTranslationRule (h(dev := (h dev)\<lparr> dev_SubPath := subPath \<rparr>)) dev main) ! 0)
           = vm_SubPath (rule_Volumes (ToTranslationRule h dev main) ! 0)"
    by (simp add: ToTranslationRule_first FullSubPath_def)
next
  assume "plainElement (dev_Name (h main)) \<and> dev_SubPath (h main) = []"
  then show "vm_SubPath (rule_Volumes (ToTranslationRule h dev main) ! 0)
          = dev_Name (h main) @ ''/data-0''"
    using FullSubPath_plain(1) [of "h main" 0]
    by (simp add: ToTranslationRule_first decimal.simps [of 0] digit_def)
next
  fix i
  assume "plainElement (dev_Name (h main)) \<and> dev_SubPath (h main) = []"
    and "i < length (dev_Volumes (h dev))"
  then show "vm_SubPath (rule_Volumes (ToTranslationRule h dev main) ! (i + 1))
                = dev_Name (h main) @ ''/data-'' @ decimal (i + 1)"
    using FullSubPath_plain(1) [of "h main" "i + 1"]
    by (simp only: ToTranslationRule_further) (simp add: add.commute)
next
  assume "plainElement (dev_Name (h main)) \<and> plainElement (dev_SubPath (h main))"
  then show "vm_SubPath (rule_Volumes (ToTranslationRule h dev main) ! 0)
          = dev_Name (h main) @ ''/data-0/'' @ dev_SubPath (h main)"
    using FullSubPath_plain(2) [of "h main" 0]
    by (simp add: ToTranslationRule_first decimal.simps [of 0] digit_def)
next
  fix i
  assume "plainElement (dev_Name (h main)) \<and> plainElement (dev_SubPath (h main))"
    and "i < length (dev_Volumes (h dev))"
  then show "vm_SubPath (rule_Volumes (ToTranslationRule h dev main) ! (i + 1))
                = dev_Name (h main) @ ''/data-'' @ decimal (i + 1) @ ''/'' @ dev_SubPath (h main)"
    using FullSubPath_plain(2) [of "h main" "i + 1"]
    by (simp only: ToTranslationRule_further) (simp add: add.commute)
qed

lemma store0_fields:
  "dev_Name (store0 0) = ''web''" "dev_SubPath (store0 0) = []"
  "dev_Volumes (store0 0) = [''/go/pkg'']"
  "dev_SubPath (store0 (Suc 0)) = ''/worker''" "dev_Volumes (store0 (Suc 0)) = []"
  by (simp_all add: store0_def dev0_def worker_def)

lemma plainElement_web: "plainElement ''web''" "plainElement ''src''"
  by (simp_all add: plainElement_def)

text \<open>
  The theorem on the root \<open>web\<close> with one declared volume, on the service \<open>worker\<close>
  with its own sub-path \<^verbatim>\<open>/worker\<close> (and with another one), and on the root with the
  sub-path \<^verbatim>\<open>src\<close>.
\<close>

theorem ToTranslationRule_subpaths_witness:
  "length (rule_Volumes (ToTranslationRule store0 0 0)) = 2
   \<and> vm_SubPath (rule_Volumes (ToTranslationRule store0 0 0) ! 0) = ''web/data-0''
   \<and> vm_SubPath (rule_Volumes (ToTranslationRule store0 0 0) ! 1) = ''web/data-1''
   \<and> vm_MountPath (rule_Volumes (ToTranslationRule store0 0 0) ! 1) = ''/go/pkg''
   \<and> dev_SubPath (store0 1) = ''/worker''
   \<and> vm_SubPath (rule_Volumes (ToTranslationRule store0 1 0) ! 0) = ''web/data-0''
   \<and> vm_SubPath (rule_Volumes
        (ToTranslationRule (store0(1 := (store0 1)\<lparr> dev_SubPath := ''/elsewhere'' \<rparr>)) 1 0) ! 0)
       = ''web/data-0''
   \<and> vm_SubPath (rule_Volumes
        (ToTranslationRule (store0(0 := (store0 0)\<lparr> dev_SubPath := ''src'' \<rparr>)) 0 0) ! 0)
       = ''web/data-0/src''
   \<and> vm_SubPath (rule_Volumes
        (ToTranslationRule (store0(0 := (store0 0)\<lparr> dev_SubPath := ''src'' \<rparr>)) 0 0) ! 1)
       = ''web/data-1/src''"
proof -
  have d1: "decimal 1 = ''1''" "decimal (Suc 0) = ''1''"
    by (simp_all add: decimal.simps [of 1] decimal.simps [of "Suc 0"] digit_def)
  have ne: "(1::nat) \<noteq> 0" by simp
  note root = ToTranslationRule_subpaths [of store0 0 0]
  note service = ToTranslationRule_subpaths [of store0 1 0]
  note rooted = ToTranslationRule_subpaths
    [of "store0(0 := (store0 0)\<lparr> dev_SubPath := ''src'' \<rparr>)" 0 0]
  have 1: "length (rule_Volumes (ToTranslationRule store0 0 0)) = 2"
    using root [THEN conjunct1] by (simp add: store0_fields)
  have 2: "vm_SubPath (rule_Volumes (ToTranslationRule store0 0 0) ! 0) = ''web/data-0''
      \<and> vm_SubPath (rule_Volumes (ToTranslationRule store0 0 0) ! 1) = ''web/data-1''"
    using root [THEN conjunct2, THEN conjunct2, THEN conjunct2, THEN conjunct2, THEN conjunct1]
      plainElement_web
    by (simp add: store0_fields d1)
  have 3: "vm_MountPath (rule_Volumes (ToTranslationRule store0 0 0) ! 1) = ''/go/pkg''"
    using root [THEN conjunct2, THEN conjunct2, THEN conjunct1]
    by (simp add: store0_fields)
  have 4: "dev_SubPath (store0 1) = ''/worker''"
    by (simp add: store0_fields)
  have 5: "vm_SubPath (rule_Volumes (ToTranslationRule store0 1 0) ! 0) = ''web/data-0''"
    using service [THEN conjunct2, THEN conjunct2, THEN conjunct2, THEN conjunct2, THEN conjunct1]
      plainElement_web
    by (simp add: store0_fields)
  have 6: "vm_SubPath (rule_Volumes
        (ToTranslationRule (store0(1 := (store0 1)\<lparr> dev_SubPath := ''/elsewhere'' \<rparr>)) 1 0) ! 0)
       = ''web/data-0''"
    using service [THEN conjunct2, THEN conjunct2, THEN conjunct2, THEN conjunct1] ne 5
    by simp
  have 7: "vm_SubPath (rule_Volumes
        (ToTranslationRule (store0(0 := (store0 0)\<lparr> dev_SubPath := ''src'' \<rparr>)) 0 0) ! 0)
       = ''web/data-0/src''
    \<and> vm_SubPath (rule_Volumes
        (ToTranslationRule (store0(0 := (store0 0)\<lparr> dev_SubPath := ''src'' \<rparr>)) 0 0) ! 1)
       = ''web/data-1/src''"
    using rooted [THEN conjunct2, THEN conjunct2, THEN conjunct2, THEN conjunct2, THEN conjunct2]
      plainElement_web
    by (simp add: store0_fields d1)
  from 1 2 3 4 5 6 7 show ?thesis by simp
qed


section \<open>Merging resources and capabilities\<close>


lemma overwriteQuantity_apply:
  "overwriteQuantity existing rule name k =
     (if k = name then (case rule name of None \<Rightarrow> existing name | Some v \<Rightarrow> Some v)
      else existing k)"
  by (simp add: overwriteQuantity_def split: option.splits)

lemma container0_resources:
  "rr_Requests (c_Resources container0) ResourceMemory = Some (2 * Gi)"
  "rr_Requests (c_Resources container0) ResourceCPU = Some 1"
  "rr_Limits (c_Resources container0) ResourceMemory = Some (Gi / 4)"
  "rr_Limits (c_Resources container0) ResourceCPU = Some (1 / 8)"
  by (simp_all add: container0_def ResourceMemory_def ResourceCPU_def)

lemma resources0_values:
  "rr_Requests resources0 ResourceMemory = Some (4 * Gi)"
  "rr_Requests resources0 ResourceCPU = Some (1 / 8)"
  "rr_Limits resources0 ResourceMemory = Some Gi"
  "rr_Limits resources0 ResourceCPU = Some 2"
  by (simp_all add: resources0_def ResourceMemory_def ResourceCPU_def)

lemma ResourceCPU_neq_Memory: "ResourceCPU \<noteq> ResourceMemory"
  by (simp add: ResourceCPU_def ResourceMemory_def)

lemma TranslateResources_Limits:
  "rr_Limits (c_Resources (TranslateResources c r)) name =
      (if name = ResourceCPU \<or> name = ResourceMemory
       then (case rr_Limits r name of Some v \<Rightarrow> Some v | None \<Rightarrow> rr_Limits (c_Resources c) name)
       else rr_Limits (c_Resources c) name)"
  using ResourceCPU_neq_Memory
  by (auto simp: TranslateResources_def overwriteQuantity_apply split: option.splits)

lemma TranslateResources_Requests:
  "rr_Requests (c_Resources (TranslateResources c r)) name =
      (if name = ResourceCPU \<or> name = ResourceMemory
       then (case rr_Requests r name of Some v \<Rightarrow> Some v | None \<Rightarrow> rr_Requests (c_Resources c) name)
       else rr_Requests (c_Resources c) name)"
  using ResourceCPU_neq_Memory
  by (auto simp: TranslateResources_def overwriteQuantity_apply split: option.splits)

text \<open>
  Claim C5. After \<^verbatim>\<open>TranslateResources\<close>, for CPU and for memory, and for limits and
  requests each on their own: where the rule specifies a quantity, that quantity is
  the container's; where it specifies none, the container keeps what it had, a
  quantity or none. No other resource changes, and no quantity is the sum of two. On
  the container with requests of 2Gi memory and 1 CPU and limits of 0.25Gi and 0.125
  CPU, the rule with requests of 4Gi and 0.125 CPU and limits of 1Gi and 2 CPU gives
  exactly the rule's four quantities.
\<close>

theorem TranslateResources_overwrites:
  "(\<forall>name \<in> {ResourceMemory, ResourceCPU}.
       rr_Limits (c_Resources (TranslateResources c r)) name =
         (case rr_Limits r name of
            Some v \<Rightarrow> Some v
          | None \<Rightarrow> rr_Limits (c_Resources c) name)
     \<and> rr_Requests (c_Resources (TranslateResources c r)) name =
         (case rr_Requests r name of
            Some v \<Rightarrow> Some v
          | None \<Rightarrow> rr_Requests (c_Resources c) name))
   \<and> (\<forall>name. name \<notin> {ResourceMemory, ResourceCPU} \<longrightarrow>
         rr_Limits (c_Resources (TranslateResources c r)) name = rr_Limits (c_Resources c) name
       \<and> rr_Requests (c_Resources (TranslateResources c r)) name
           = rr_Requests (c_Resources c) name)
   \<and> rr_Requests (c_Resources (TranslateResources container0 resources0)) ResourceMemory
       = Some (4 * Gi)
   \<and> rr_Requests (c_Resources (TranslateResources container0 resources0)) ResourceCPU
       = Some (1 / 8)
   \<and> rr_Limits (c_Resources (TranslateResources container0 resources0)) ResourceMemory
       = Some Gi
   \<and> rr_Limits (c_Resources (TranslateResources container0 resources0)) ResourceCPU
       = Some 2"
  by (simp add: TranslateResources_Limits TranslateResources_Requests
      container0_resources resources0_values)

text \<open>
  The theorem on a rule that specifies the CPU limit only: the other three quantities
  of the container stay, and a resource that is neither CPU nor memory stays absent.
\<close>

theorem TranslateResources_overwrites_witness:
  "rr_Limits (c_Resources (TranslateResources container0
       \<lparr> rr_Limits = [ResourceCPU \<mapsto> 2], rr_Requests = Map.empty \<rparr>)) ResourceCPU = Some 2
   \<and> rr_Limits (c_Resources (TranslateResources container0
       \<lparr> rr_Limits = [ResourceCPU \<mapsto> 2], rr_Requests = Map.empty \<rparr>)) ResourceMemory
       = Some (Gi / 4)
   \<and> rr_Requests (c_Resources (TranslateResources container0
       \<lparr> rr_Limits = [ResourceCPU \<mapsto> 2], rr_Requests = Map.empty \<rparr>)) ResourceCPU = Some 1
   \<and> rr_Requests (c_Resources (TranslateResources container0
       \<lparr> rr_Limits = [ResourceCPU \<mapsto> 2], rr_Requests = Map.empty \<rparr>)) ''ephemeral-storage''
       = None"
proof -
  have ne: "ResourceCPU \<noteq> ResourceMemory" "''ephemeral-storage'' \<notin> {ResourceMemory, ResourceCPU}"
    by (simp_all add: ResourceCPU_def ResourceMemory_def)
  have e: "rr_Requests (c_Resources container0) ''ephemeral-storage'' = None"
    by (simp add: container0_def ResourceCPU_def ResourceMemory_def)
  show ?thesis
    using ne e TranslateResources_overwrites [of container0
        "\<lparr> rr_Limits = [ResourceCPU \<mapsto> 2], rr_Requests = Map.empty \<rparr>"]
    by (simp add: container0_resources)
qed















section \<open>Leaving dev mode\<close>


text \<open>
  Claim C2. \<^verbatim>\<open>DevModeOff\<close> takes one of three paths, by the metadata that is present (an
  annotation is present when it reads as a non-empty string).
  \<^item> The serialized translation is on the pod template: if it does not parse,
    \<^verbatim>\<open>DevModeOff\<close> fails with the error \<^verbatim>\<open>malformed tr rules\<close> and writes nothing; if it
    parses, the object written back has the translation's replica count, has lost the
    developer and version annotations, the translation annotation of the pod template
    and the dev-mode label, and keeps the rest of its annotations, labels and pod spec.
  \<^item> Otherwise, the original manifest is on the deployment: the object written back is
    the deserialized original (as \<^verbatim>\<open>update\<close> sends every object: resource version and
    status cleared), and nothing of the live object remains; a manifest that does not
    parse is the error \<^verbatim>\<open>malformed manifest\<close>.
  \<^item> Neither is present: nothing is written and no error is returned.
  The error of a write is the client's.
\<close>

theorem DevModeOff_paths:
  "(getAnnotation (tpl_ObjectMeta (spec_Template (d_Spec d))) (OktetoTranslationAnnotation K) \<noteq> []
      \<longrightarrow>
        (\<forall>msg. Unmarshal_Translation J
                 (getAnnotation (tpl_ObjectMeta (spec_Template (d_Spec d)))
                    (OktetoTranslationAnnotation K)) = Inl msg
           \<longrightarrow> DevModeOff K J d c = (Some (Errorf (''malformed tr rules: '' @ msg)), []))
      \<and> (\<forall>t. Unmarshal_Translation J
                 (getAnnotation (tpl_ObjectMeta (spec_Template (d_Spec d)))
                    (OktetoTranslationAnnotation K)) = Inr t
           \<longrightarrow> (\<exists>w. DevModeOff K J d c = (map_option APIError (DeploymentsUpdate c 0 w), [w])
                  \<and> spec_Replicas (d_Spec w) = Some (tr_Replicas t)
                  \<and> meta_Annotations (d_ObjectMeta w) =
                      (meta_Annotations (d_ObjectMeta d))
                        (oktetoDeveloperAnnotation K := None, oktetoVersionAnnotation K := None)
                  \<and> meta_Annotations (tpl_ObjectMeta (spec_Template (d_Spec w))) =
                      (meta_Annotations (tpl_ObjectMeta (spec_Template (d_Spec d))))
                        (OktetoTranslationAnnotation K := None)
                  \<and> meta_Labels (d_ObjectMeta w) =
                      (meta_Labels (d_ObjectMeta d)) (OktetoDevLabel K := None)
                  \<and> tpl_Spec (spec_Template (d_Spec w)) = tpl_Spec (spec_Template (d_Spec d)))))
   \<and> (getAnnotation (tpl_ObjectMeta (spec_Template (d_Spec d))) (OktetoTranslationAnnotation K) = []
        \<and> getAnnotation (d_ObjectMeta d) (oktetoDeploymentAnnotation K) \<noteq> []
      \<longrightarrow>
        (\<forall>msg. Unmarshal_Deployment J
                 (getAnnotation (d_ObjectMeta d) (oktetoDeploymentAnnotation K)) = Inl msg
           \<longrightarrow> DevModeOff K J d c = (Some (Errorf (''malformed manifest: '' @ msg)), []))
      \<and> (\<forall>dOrig. Unmarshal_Deployment J
                   (getAnnotation (d_ObjectMeta d) (oktetoDeploymentAnnotation K)) = Inr dOrig
           \<longrightarrow> DevModeOff K J d c =
                 (map_option APIError
                    (DeploymentsUpdate c 0
                       (dOrig\<lparr> d_ObjectMeta := (d_ObjectMeta dOrig)\<lparr> meta_ResourceVersion := [] \<rparr>,
                               d_Status := \<lparr> ds_Conditions = [] \<rparr> \<rparr>)),
                  [dOrig\<lparr> d_ObjectMeta := (d_ObjectMeta dOrig)\<lparr> meta_ResourceVersion := [] \<rparr>,
                          d_Status := \<lparr> ds_Conditions = [] \<rparr> \<rparr>])))
   \<and> (getAnnotation (tpl_ObjectMeta (spec_Template (d_Spec d))) (OktetoTranslationAnnotation K) = []
        \<and> getAnnotation (d_ObjectMeta d) (oktetoDeploymentAnnotation K) = []
      \<longrightarrow> DevModeOff K J d c = (None, []))"
proof (intro conjI impI allI)
  fix msg
  assume "getAnnotation (tpl_ObjectMeta (spec_Template (d_Spec d))) (OktetoTranslationAnnotation K) \<noteq> []"
    and "Unmarshal_Translation J
           (getAnnotation (tpl_ObjectMeta (spec_Template (d_Spec d)))
              (OktetoTranslationAnnotation K)) = Inl msg"
  then show "DevModeOff K J d c = (Some (Errorf (''malformed tr rules: '' @ msg)), [])"
    by (simp add: DevModeOff_def Let_def)
next
  fix t
  assume a: "getAnnotation (tpl_ObjectMeta (spec_Template (d_Spec d))) (OktetoTranslationAnnotation K) \<noteq> []"
    and u: "Unmarshal_Translation J
           (getAnnotation (tpl_ObjectMeta (spec_Template (d_Spec d)))
              (OktetoTranslationAnnotation K)) = Inr t"
  let ?r = "restoreFromTranslation K t d"
  let ?w = "?r\<lparr> d_ObjectMeta := (d_ObjectMeta ?r)\<lparr> meta_ResourceVersion := [] \<rparr>,
                 d_Status := \<lparr> ds_Conditions = [] \<rparr> \<rparr>"
  have "DevModeOff K J d c = update ?r c"
    using a u by (simp add: DevModeOff_def Let_def)
  then have 1: "DevModeOff K J d c = (map_option APIError (DeploymentsUpdate c 0 ?w), [?w])"
    by (simp add: update_def Let_def split: option.splits)
  have 2: "spec_Replicas (d_Spec ?w) = Some (tr_Replicas t)"
    by (simp add: restoreFromTranslation_def Let_def)
  have 3: "meta_Annotations (d_ObjectMeta ?w) =
      (meta_Annotations (d_ObjectMeta d))
        (oktetoDeveloperAnnotation K := None, oktetoVersionAnnotation K := None)"
    by (simp add: restoreFromTranslation_def Let_def)
  have 4: "meta_Annotations (tpl_ObjectMeta (spec_Template (d_Spec ?w))) =
      (meta_Annotations (tpl_ObjectMeta (spec_Template (d_Spec d))))
        (OktetoTranslationAnnotation K := None)"
    by (simp add: restoreFromTranslation_def Let_def)
  have 5: "meta_Labels (d_ObjectMeta ?w) = (meta_Labels (d_ObjectMeta d)) (OktetoDevLabel K := None)"
    by (simp add: restoreFromTranslation_def Let_def)
  have 6: "tpl_Spec (spec_Template (d_Spec ?w)) = tpl_Spec (spec_Template (d_Spec d))"
    by (simp add: restoreFromTranslation_def Let_def)
  from 1 2 3 4 5 6
  show "\<exists>w. DevModeOff K J d c = (map_option APIError (DeploymentsUpdate c 0 w), [w])
                  \<and> spec_Replicas (d_Spec w) = Some (tr_Replicas t)
                  \<and> meta_Annotations (d_ObjectMeta w) =
                      (meta_Annotations (d_ObjectMeta d))
                        (oktetoDeveloperAnnotation K := None, oktetoVersionAnnotation K := None)
                  \<and> meta_Annotations (tpl_ObjectMeta (spec_Template (d_Spec w))) =
                      (meta_Annotations (tpl_ObjectMeta (spec_Template (d_Spec d))))
                        (OktetoTranslationAnnotation K := None)
                  \<and> meta_Labels (d_ObjectMeta w) =
                      (meta_Labels (d_ObjectMeta d)) (OktetoDevLabel K := None)
                  \<and> tpl_Spec (spec_Template (d_Spec w)) = tpl_Spec (spec_Template (d_Spec d))"
    by (intro exI [of _ ?w] conjI)
next
  fix msg
  assume "getAnnotation (tpl_ObjectMeta (spec_Template (d_Spec d))) (OktetoTranslationAnnotation K) = []
        \<and> getAnnotation (d_ObjectMeta d) (oktetoDeploymentAnnotation K) \<noteq> []"
    and "Unmarshal_Deployment J
           (getAnnotation (d_ObjectMeta d) (oktetoDeploymentAnnotation K)) = Inl msg"
  then show "DevModeOff K J d c = (Some (Errorf (''malformed manifest: '' @ msg)), [])"
    by (simp add: DevModeOff_def Let_def)
next
  fix dOrig
  assume "getAnnotation (tpl_ObjectMeta (spec_Template (d_Spec d))) (OktetoTranslationAnnotation K) = []
        \<and> getAnnotation (d_ObjectMeta d) (oktetoDeploymentAnnotation K) \<noteq> []"
    and "Unmarshal_Deployment J
           (getAnnotation (d_ObjectMeta d) (oktetoDeploymentAnnotation K)) = Inr dOrig"
  then show "DevModeOff K J d c =
                 (map_option APIError
                    (DeploymentsUpdate c 0
                       (dOrig\<lparr> d_ObjectMeta := (d_ObjectMeta dOrig)\<lparr> meta_ResourceVersion := [] \<rparr>,
                               d_Status := \<lparr> ds_Conditions = [] \<rparr> \<rparr>)),
                  [dOrig\<lparr> d_ObjectMeta := (d_ObjectMeta dOrig)\<lparr> meta_ResourceVersion := [] \<rparr>,
                          d_Status := \<lparr> ds_Conditions = [] \<rparr> \<rparr>])"
    by (simp add: DevModeOff_def update_def Let_def split: option.splits)
next
  assume "getAnnotation (tpl_ObjectMeta (spec_Template (d_Spec d))) (OktetoTranslationAnnotation K) = []
        \<and> getAnnotation (d_ObjectMeta d) (oktetoDeploymentAnnotation K) = []"
  then show "DevModeOff K J d c = (None, [])"
    by (simp add: DevModeOff_def Let_def)
qed

lemma getAnnotation_annotated:
  "getAnnotation (d_ObjectMeta (annotated a ta l)) k = (case a k of None \<Rightarrow> [] | Some v \<Rightarrow> v)"
  "getAnnotation (tpl_ObjectMeta (spec_Template (d_Spec (annotated a ta l)))) k
     = (case ta k of None \<Rightarrow> [] | Some v \<Rightarrow> v)"
  by (simp_all add: getAnnotation_def annotated_def)

lemma annotated_fields:
  "meta_Annotations (d_ObjectMeta (annotated a ta l)) = a"
  "meta_Annotations (tpl_ObjectMeta (spec_Template (d_Spec (annotated a ta l)))) = ta"
  "meta_Labels (d_ObjectMeta (annotated a ta l)) = l"
  by (simp_all add: annotated_def)

text \<open>
  The theorem on five deployments: one outside dev mode, one whose translation does not
  parse, one whose original manifest does not parse, one that carries its original
  manifest, and one in dev mode with a translation that asks for three replicas.
\<close>

theorem DevModeOff_paths_witness:
  "DevModeOff names0 json0 (annotated Map.empty Map.empty [''app'' \<mapsto> ''web''])
      (cluster [] (Inr (deployment0 []))) = (None, [])
   \<and> DevModeOff names0 json0
        (annotated Map.empty [''dev.okteto.com/translation'' \<mapsto> ''{name:''] Map.empty)
        (cluster [] (Inr (deployment0 [])))
       = (Some (Errorf ''malformed tr rules: invalid character''), [])
   \<and> DevModeOff names0 json0
        (annotated [''dev.okteto.com/deployment'' \<mapsto> ''{metadata:''] Map.empty Map.empty)
        (cluster [] (Inr (deployment0 [])))
       = (Some (Errorf ''malformed manifest: invalid character''), [])
   \<and> DevModeOff names0 json0
        (annotated [''dev.okteto.com/deployment'' \<mapsto> ''{metadata:{name:web}}'']
           Map.empty [''dev.okteto.com'' \<mapsto> ''true''])
        (cluster [] (Inr (deployment0 [])))
       = (None, [(deployment0 [])\<lparr> d_ObjectMeta := (meta0 ''web'')\<lparr> meta_ResourceVersion := [] \<rparr> \<rparr>])
   \<and> (\<exists>w. DevModeOff names0 json0
             (annotated [''dev.okteto.com/developer'' \<mapsto> ''ada'',
                         ''dev.okteto.com/version'' \<mapsto> ''1.0'', ''owner'' \<mapsto> ''team-a'']
                [''dev.okteto.com/translation'' \<mapsto> ''{name:web,replicas:3}'']
                [''dev.okteto.com'' \<mapsto> ''true'', ''app'' \<mapsto> ''web''])
             (cluster [] (Inr (deployment0 []))) = (None, [w])
          \<and> spec_Replicas (d_Spec w) = Some 3
          \<and> meta_Annotations (d_ObjectMeta w) ''dev.okteto.com/developer'' = None
          \<and> meta_Annotations (d_ObjectMeta w) ''dev.okteto.com/version'' = None
          \<and> meta_Annotations (d_ObjectMeta w) ''owner'' = Some ''team-a''
          \<and> meta_Annotations (tpl_ObjectMeta (spec_Template (d_Spec w)))
               ''dev.okteto.com/translation'' = None
          \<and> meta_Labels (d_ObjectMeta w) ''dev.okteto.com'' = None
          \<and> meta_Labels (d_ObjectMeta w) ''app'' = Some ''web'')"
proof (intro conjI)
  let ?c = "cluster [] (Inr (deployment0 []))"
  have k: "OktetoTranslationAnnotation names0 = ''dev.okteto.com/translation''"
    "oktetoDeploymentAnnotation names0 = ''dev.okteto.com/deployment''"
    "oktetoDeveloperAnnotation names0 = ''dev.okteto.com/developer''"
    "oktetoVersionAnnotation names0 = ''dev.okteto.com/version''"
    "OktetoDevLabel names0 = ''dev.okteto.com''"
    by (simp_all add: names0_def)
  have up: "DeploymentsUpdate (cluster pods dep) 0 w = None" for pods dep w
    by (simp add: cluster_def)
  show "DevModeOff names0 json0 (annotated Map.empty Map.empty [''app'' \<mapsto> ''web'']) ?c = (None, [])"
    using DevModeOff_paths [of "annotated Map.empty Map.empty [''app'' \<mapsto> ''web'']" names0 json0 ?c]
    by (simp add: getAnnotation_annotated)
  show "DevModeOff names0 json0
        (annotated Map.empty [''dev.okteto.com/translation'' \<mapsto> ''{name:''] Map.empty) ?c
       = (Some (Errorf ''malformed tr rules: invalid character''), [])"
    using DevModeOff_paths [of "annotated Map.empty
        [''dev.okteto.com/translation'' \<mapsto> ''{name:''] Map.empty" names0 json0 ?c]
    by (simp add: getAnnotation_annotated k json0_def)
  show "DevModeOff names0 json0
        (annotated [''dev.okteto.com/deployment'' \<mapsto> ''{metadata:''] Map.empty Map.empty) ?c
       = (Some (Errorf ''malformed manifest: invalid character''), [])"
    using DevModeOff_paths [of "annotated [''dev.okteto.com/deployment'' \<mapsto> ''{metadata:'']
        Map.empty Map.empty" names0 json0 ?c]
    by (simp add: getAnnotation_annotated k json0_def)
  show "DevModeOff names0 json0
        (annotated [''dev.okteto.com/deployment'' \<mapsto> ''{metadata:{name:web}}'']
           Map.empty [''dev.okteto.com'' \<mapsto> ''true'']) ?c
       = (None, [(deployment0 [])\<lparr> d_ObjectMeta := (meta0 ''web'')\<lparr> meta_ResourceVersion := [] \<rparr> \<rparr>])"
    using DevModeOff_paths [of "annotated [''dev.okteto.com/deployment'' \<mapsto> ''{metadata:{name:web}}'']
           Map.empty [''dev.okteto.com'' \<mapsto> ''true'']" names0 json0 ?c]
    by (simp add: getAnnotation_annotated k json0_def up deployment0_def)
  let ?d = "annotated [''dev.okteto.com/developer'' \<mapsto> ''ada'',
                         ''dev.okteto.com/version'' \<mapsto> ''1.0'', ''owner'' \<mapsto> ''team-a'']
                [''dev.okteto.com/translation'' \<mapsto> ''{name:web,replicas:3}'']
                [''dev.okteto.com'' \<mapsto> ''true'', ''app'' \<mapsto> ''web'']"
  have g: "getAnnotation (tpl_ObjectMeta (spec_Template (d_Spec ?d))) (OktetoTranslationAnnotation names0)
      = ''{name:web,replicas:3}''"
    by (simp add: getAnnotation_annotated k)
  have u: "Unmarshal_Translation json0 ''{name:web,replicas:3}'' = Inr translation0"
    by (simp add: json0_def)
  from DevModeOff_paths [of ?d names0 json0 ?c] g u
  obtain w where w: "DevModeOff names0 json0 ?d ?c = (None, [w])"
      "spec_Replicas (d_Spec w) = Some (tr_Replicas translation0)"
      "meta_Annotations (d_ObjectMeta w) =
          (meta_Annotations (d_ObjectMeta ?d))
            (oktetoDeveloperAnnotation names0 := None, oktetoVersionAnnotation names0 := None)"
      "meta_Annotations (tpl_ObjectMeta (spec_Template (d_Spec w))) =
          (meta_Annotations (tpl_ObjectMeta (spec_Template (d_Spec ?d))))
            (OktetoTranslationAnnotation names0 := None)"
      "meta_Labels (d_ObjectMeta w) = (meta_Labels (d_ObjectMeta ?d)) (OktetoDevLabel names0 := None)"
    by (auto simp: up)
  show "\<exists>w. DevModeOff names0 json0 ?d ?c = (None, [w])
          \<and> spec_Replicas (d_Spec w) = Some 3
          \<and> meta_Annotations (d_ObjectMeta w) ''dev.okteto.com/developer'' = None
          \<and> meta_Annotations (d_ObjectMeta w) ''dev.okteto.com/version'' = None
          \<and> meta_Annotations (d_ObjectMeta w) ''owner'' = Some ''team-a''
          \<and> meta_Annotations (tpl_ObjectMeta (spec_Template (d_Spec w)))
               ''dev.okteto.com/translation'' = None
          \<and> meta_Labels (d_ObjectMeta w) ''dev.okteto.com'' = None
          \<and> meta_Labels (d_ObjectMeta w) ''app'' = Some ''web''"
    by (rule exI [of _ w]) (simp add: w annotated_fields k translation0_def)
qed

end
